theory Spec2Isabelle
  imports Complex_Main "HOL-Library.Sublist"
begin

section \<open>Python values used by the pipeline\<close>

text \<open>
  The exceptions the pipeline can raise. Every raise of the source is a branch of the
  model that returns \<open>Inl\<close> of one of these.
\<close>

datatype error =
    FileNotFoundError | NotADirectoryError | IsADirectoryError
  | ValueError | IndexError | KeyError | TypeError | AttributeError
  | UnboundLocalError | ParserError

text \<open>Sequencing of fallible steps: the first exception ends the computation.\<close>

definition bind :: "error + 'a \<Rightarrow> ('a \<Rightarrow> error + 'b) \<Rightarrow> error + 'b" where
  "bind m f = (case m of Inl e \<Rightarrow> Inl e | Inr x \<Rightarrow> f x)"

fun mapM :: "('a \<Rightarrow> error + 'b) \<Rightarrow> 'a list \<Rightarrow> error + 'b list" where
  "mapM f [] = Inr []"
| "mapM f (x # xs) =
     (case f x of Inl e \<Rightarrow> Inl e
      | Inr y \<Rightarrow> (case mapM f xs of Inl e \<Rightarrow> Inl e | Inr ys \<Rightarrow> Inr (y # ys)))"

subsection \<open>Strings\<close>

text \<open>
  Python \<open>str\<close> methods on \<open>string\<close>. \<open>find_sub sep s\<close> is \<open>s.find(sep)\<close>: the index of
  the first occurrence of \<open>sep\<close>, \<open>None\<close> for Python's \<open>-1\<close>.
\<close>

fun find_sub :: "string \<Rightarrow> string \<Rightarrow> nat option" where
  "find_sub sep [] = (if sep = [] then Some 0 else None)"
| "find_sub sep (c # cs) =
     (if prefix sep (c # cs) then Some 0 else map_option Suc (find_sub sep cs))"

definition contains :: "string \<Rightarrow> string \<Rightarrow> bool" where
  \<comment> \<open>\<open>sub in s\<close>\<close>
  "contains sub s = (find_sub sub s \<noteq> None)"

definition endswith :: "string \<Rightarrow> string \<Rightarrow> bool" where
  \<comment> \<open>\<open>s.endswith(suf)\<close>\<close>
  "endswith s suf = suffix suf s"

lemma find_sub_bound: "find_sub sep s = Some i \<Longrightarrow> i + length sep \<le> length s"
proof (induction s arbitrary: i)
  case Nil
  then show ?case by (simp split: if_splits)
next
  case (Cons c cs)
  show ?case
  proof (cases "prefix sep (c # cs)")
    case True
    with Cons.prems have "i = 0" by simp
    with prefix_length_le [OF True] show ?thesis by simp
  next
    case False
    with Cons.prems obtain j where "find_sub sep cs = Some j" "i = Suc j" by auto
    with Cons.IH show ?thesis by simp
  qed
qed

text \<open>
  \<open>py_split sep s\<close> is \<open>s.split(sep)\<close> for a non-empty separator (the only use in the
  source; Python raises on an empty one, where the model returns \<open>[s]\<close>), and
  \<open>py_split1 sep s\<close> is \<open>s.split(sep, 1)\<close>.
\<close>

function py_split :: "string \<Rightarrow> string \<Rightarrow> string list" where
  "py_split sep s =
     (if sep = [] then [s]
      else (case find_sub sep s of
              None \<Rightarrow> [s]
            | Some i \<Rightarrow> take i s # py_split sep (drop (i + length sep) s)))"
  by pat_completeness auto
termination
proof (relation "measure (\<lambda>(sep, s). length s)")
  show "wf (measure (\<lambda>(sep, s). length s))" by simp
next
  fix sep s :: string and i
  assume "sep \<noteq> []" "find_sub sep s = Some i"
  then have "i + length sep \<le> length s" "0 < length sep"
    by (auto dest: find_sub_bound)
  then have "length (drop (i + length sep) s) < length s"
    unfolding length_drop by linarith
  then show "((sep, drop (i + length sep) s), (sep, s)) \<in> measure (\<lambda>(sep, s). length s)"
    by simp
qed

declare py_split.simps [simp del]

definition py_split1 :: "string \<Rightarrow> string \<Rightarrow> string list" where
  "py_split1 sep s =
     (case find_sub sep s of
        None \<Rightarrow> [s]
      | Some i \<Rightarrow> [take i s, drop (i + length sep) s])"

fun py_join :: "string \<Rightarrow> string list \<Rightarrow> string" where
  \<comment> \<open>\<open>sep.join(parts)\<close>\<close>
  "py_join sep [] = []"
| "py_join sep [p] = p"
| "py_join sep (p # q # ps) = p @ sep @ py_join sep (q # ps)"

definition py_replace :: "string \<Rightarrow> string \<Rightarrow> string \<Rightarrow> string" where
  \<comment> \<open>\<open>s.replace(old, new)\<close> for a non-empty \<open>old\<close>: every occurrence, left to right\<close>
  "py_replace old new s = py_join new (py_split old s)"

text \<open>\<open>xs[i]\<close> on a Python sequence: a negative index counts from the end.\<close>

definition py_index :: "'a list \<Rightarrow> int \<Rightarrow> error + 'a" where
  "py_index xs i =
     (if 0 \<le> i \<and> i < int (length xs) then Inr (xs ! nat i)
      else if i < 0 \<and> - i \<le> int (length xs) then Inr (xs ! nat (int (length xs) + i))
      else Inl IndexError)"

text \<open>\<open>str(n)\<close> of a Python int: the decimal rendering, with a minus sign below zero.\<close>

definition digit_char :: "nat \<Rightarrow> char" where
  "digit_char d = ''0123456789'' ! d"

function str_nat :: "nat \<Rightarrow> string" where
  "str_nat n = (if n < 10 then [digit_char n] else str_nat (n div 10) @ [digit_char (n mod 10)])"
  by pat_completeness auto
termination
  by (relation "measure id") auto

declare str_nat.simps [simp del]

lemma str_nat_digit: "n < 10 \<Longrightarrow> str_nat n = [digit_char n]"
  by (subst str_nat.simps) simp

lemma str_nat_tens:
  "10 \<le> n \<Longrightarrow> str_nat n = str_nat (n div 10) @ [digit_char (n mod 10)]"
  by (subst str_nat.simps) simp

definition str_int :: "int \<Rightarrow> string" where
  "str_int i = (if i < 0 then CHR ''-'' # str_nat (nat (- i)) else str_nat (nat i))"

section \<open>The well-label codec\<close>

text \<open>
  \<^verbatim>\<open>
  def _well_to_label(self,well):
      row_letter = string.ascii_uppercase[well["Row"]]
      col_number = well["Column"] + 1
      return f"{row_letter}{col_number}"
  \<close>
  A well of the JSON export is a pair of integers.
\<close>

record well =
  Row :: int
  Column :: int

definition ascii_uppercase :: string where
  "ascii_uppercase = ''ABCDEFGHIJKLMNOPQRSTUVWXYZ''"

definition well_to_label :: "well \<Rightarrow> error + string" where
  "well_to_label w =
     bind (py_index ascii_uppercase (Row w)) (\<lambda>row_letter.
       let col_number = Column w + 1
       in Inr (row_letter # str_int col_number))"

text \<open>
  The pattern of the specification, \<^verbatim>\<open>^[A-H](?:[1-9]|1[0-2])$\<close>, as a predicate on the
  whole string: a letter from A to H, then one digit from 1 to 9, or 1 and a digit from
  0 to 2.
\<close>

definition plate_label_pattern :: "string \<Rightarrow> bool" where
  "plate_label_pattern s =
     (case s of
        [l, d] \<Rightarrow> l \<in> set ''ABCDEFGH'' \<and> d \<in> set ''123456789''
      | [l, d, e] \<Rightarrow> l \<in> set ''ABCDEFGH'' \<and> d = CHR ''1'' \<and> e \<in> set ''012''
      | _ \<Rightarrow> False)"

text \<open>The decimal renderings of 1 to 12, used to reason about the twelve plate columns.\<close>

definition column_numbers :: "string list" where
  "column_numbers = map (\<lambda>n. str_nat (Suc n)) [0..<12]"

lemma column_numbers_eval:
  "column_numbers = map (\<lambda>d. [d]) ''123456789'' @ map (\<lambda>d. [CHR ''1'', d]) ''012''"
  by (simp add: column_numbers_def upt_rec str_nat_digit str_nat_tens digit_char_def)

lemma str_int_column:
  assumes "0 \<le> c" "c < 12"
  shows "str_int (c + 1) = column_numbers ! nat c"
proof -
  from assms have "c \<in> {0, 1, 2, 3, 4, 5, 6, 7, 8, 9, 10, 11}" by simp presburger
  then show ?thesis
    by (auto simp: str_int_def str_nat_digit str_nat_tens digit_char_def column_numbers_eval)
qed

lemma row_letter_index:
  assumes "0 \<le> r" "r < 26"
  shows "py_index ascii_uppercase r = Inr (ascii_uppercase ! nat r)"
  using assms by (simp add: py_index_def ascii_uppercase_def)

lemma row_letter_plate:
  assumes "0 \<le> r" "r < 8"
  shows "ascii_uppercase ! nat r \<in> set ''ABCDEFGH''"
proof -
  from assms have "r \<in> {0, 1, 2, 3, 4, 5, 6, 7}" by simp presburger
  then show ?thesis by (auto simp: ascii_uppercase_def)
qed

lemma column_number_pattern:
  assumes "l \<in> set ''ABCDEFGH''" "n < 12"
  shows "plate_label_pattern (l # column_numbers ! n)"
proof -
  from assms(2) have "n \<in> {0, 1, 2, 3, 4, 5, 6, 7, 8, 9, 10, 11}" by simp presburger
  then show ?thesis using assms(1)
    by (auto simp: plate_label_pattern_def column_numbers_eval)
qed

lemma distinct_ascii_uppercase: "distinct ascii_uppercase"
  by (simp add: ascii_uppercase_def)

lemma distinct_column_numbers: "distinct column_numbers"
  by (simp add: column_numbers_eval)

text \<open>
  Claim C7. For every row index \<open>r\<close> in \<open>[0,8)\<close> and column index \<open>c\<close> in \<open>[0,12)\<close> the
  encoder returns (without raising) the \<open>(r+1)\<close>-th uppercase letter followed by the decimal
  rendering of \<open>c+1\<close>; the label matches the pattern of the specification; and two valid
  coordinates with the same label are equal.
\<close>

theorem well_to_label_plate:
  assumes "0 \<le> r" "r < 8" "0 \<le> c" "c < 12"
  shows "well_to_label \<lparr>Row = r, Column = c\<rparr> = Inr (ascii_uppercase ! nat r # str_int (c + 1))
       \<and> plate_label_pattern (ascii_uppercase ! nat r # str_int (c + 1))
       \<and> (\<forall>r' c'. 0 \<le> r' \<and> r' < 8 \<and> 0 \<le> c' \<and> c' < 12
             \<and> well_to_label \<lparr>Row = r', Column = c'\<rparr> = well_to_label \<lparr>Row = r, Column = c\<rparr>
            \<longrightarrow> r' = r \<and> c' = c)"
proof (intro conjI allI impI)
  have label: "well_to_label \<lparr>Row = r, Column = c\<rparr> = Inr (ascii_uppercase ! nat r # column_numbers ! nat c)"
    if "0 \<le> r" "r < 8" "0 \<le> c" "c < 12" for r c
    using that by (simp add: well_to_label_def bind_def row_letter_index str_int_column)
  show "well_to_label \<lparr>Row = r, Column = c\<rparr> = Inr (ascii_uppercase ! nat r # str_int (c + 1))"
    using assms by (simp add: label str_int_column)
  show "plate_label_pattern (ascii_uppercase ! nat r # str_int (c + 1))"
  proof -
    from assms have "nat c < 12" by simp
    with row_letter_plate [OF assms(1,2)]
    have "plate_label_pattern (ascii_uppercase ! nat r # column_numbers ! nat c)"
      by (rule column_number_pattern)
    with assms show ?thesis by (simp add: str_int_column)
  qed
  fix r' c'
  assume h: "0 \<le> r' \<and> r' < 8 \<and> 0 \<le> c' \<and> c' < 12
     \<and> well_to_label \<lparr>Row = r', Column = c'\<rparr> = well_to_label \<lparr>Row = r, Column = c\<rparr>"
  then have b: "0 \<le> r'" "r' < 8" "0 \<le> c'" "c' < 12"
    and e: "well_to_label \<lparr>Row = r', Column = c'\<rparr> = well_to_label \<lparr>Row = r, Column = c\<rparr>"
    by simp_all
  from e label [OF b] label [OF assms]
  have eq: "ascii_uppercase ! nat r' = ascii_uppercase ! nat r"
       "column_numbers ! nat c' = column_numbers ! nat c"
    by simp_all
  have "nat r' < length ascii_uppercase" "nat r < length ascii_uppercase"
    using b assms by (simp_all add: ascii_uppercase_def)
  with eq(1) distinct_ascii_uppercase have "nat r' = nat r"
    by (simp add: nth_eq_iff_index_eq)
  moreover have "nat c' < length column_numbers" "nat c < length column_numbers"
    using b assms by (simp_all add: column_numbers_eval)
  with eq(2) distinct_column_numbers have "nat c' = nat c"
    by (simp add: nth_eq_iff_index_eq)
  ultimately show "r' = r" "c' = c" using b assms by linarith+
qed

theorem well_to_label_plate_witness:
  "well_to_label \<lparr>Row = 7, Column = 11\<rparr> = Inr ''H12'' \<and> plate_label_pattern ''H12''"
  using well_to_label_plate [of 7 11]
  by (simp add: ascii_uppercase_def str_int_def str_nat_digit str_nat_tens digit_char_def)

section \<open>Tables and the staging directory\<close>

text \<open>
  A cell of a pandas table is a string, an integer, a float, or missing (\<open>NaN\<close>; Python's
  \<open>None\<close> in an object column counts as missing too). Floats are modelled as reals:
  arithmetic on them is exact in the model. Column labels are cells as well: the labels
  promoted from a data row are whatever that row holds.
\<close>

datatype cell = NaN | Str string | IntV int | FloatV real

text \<open>A \<open>DataFrame\<close>: its column labels and its rows, each row one cell per column.\<close>

record frame =
  columns :: "cell list"
  rows :: "cell list list"

text \<open>
  One entry of \<open>AnalysisWellGroupsCollection\<close> in the JSON export, and what a file of
  the staging directory holds: the table \<open>pd.read_csv\<close> or \<open>pd.read_excel\<close> returns for
  it, or the well groups \<open>json.load\<close> returns. A directory entry is a regular file or a
  sub-directory; the directory is the list of its entries in \<open>os.listdir\<close> order.
\<close>

record wellgroup =
  GroupName :: string
  SelectedWells :: "well list"

datatype content = Csv frame | Xlsx frame | Json "wellgroup list" | Opaque

datatype node = File content | Dir "(string \<times> node) list"

type_synonym directory = "(string \<times> node) list"

definition listdir :: "directory \<Rightarrow> string list" where
  "listdir data_dir = map fst data_dir"

section \<open>Scan ID\<close>

text \<open>
  \<^verbatim>\<open>
  def _extract_scan_id(self, data_dir):
      prefixes=set()
      for file in os.listdir(data_dir):
          if file.endswith('.csv'):
              prefix=file.split('_')[0]
              prefixes.add(prefix)
      if len(prefixes)==1:
          scan_id=prefixes.pop()
      else:
          print("Multiple scan IDs found")
          scan_id=None
      return scan_id
  \<close>
  The set is a list without repetitions; \<open>pop\<close> on a set of one element returns it.
\<close>

definition extract_scan_id :: "directory \<Rightarrow> string option" where
  "extract_scan_id data_dir =
     (let prefixes =
        fold (\<lambda>file prefixes.
                if endswith file ''.csv''
                then (let prefix = hd (py_split ''_'' file) in List.insert prefix prefixes)
                else prefixes)
             (listdir data_dir) []
      in if length prefixes = 1 then Some (hd prefixes) else None)"













section \<open>Instrument file reader\<close>

text \<open>
  A Python \<open>dict\<close> keeps its keys in insertion order; storing under a key that is present
  replaces the value in place. It is modelled as an association list.
\<close>

fun dict_set :: "'k \<Rightarrow> 'v \<Rightarrow> ('k \<times> 'v) list \<Rightarrow> ('k \<times> 'v) list" where
  "dict_set k v [] = [(k, v)]"
| "dict_set k v ((k', v') # kvs) =
     (if k' = k then (k, v) # kvs else (k', v') # dict_set k v kvs)"

text \<open>
  \<open>pd.read_csv(os.path.join(data_dir,file))\<close> for an entry of the directory: the table the
  file holds. A sub-directory cannot be opened; a file that is not CSV text is refused by
  the parser (one error stands for every parser failure).
\<close>

definition read_csv :: "node \<Rightarrow> error + frame" where
  "read_csv entry =
     (case entry of
        Dir _ \<Rightarrow> Inl IsADirectoryError
      | File (Csv df) \<Rightarrow> Inr df
      | File _ \<Rightarrow> Inl ParserError)"

text \<open>
  \<^verbatim>\<open>
  label=file.split('summary_positions_')[1].replace('.csv','')
  channel, attribute = label.split('_',1)
  \<close>
  The index fails when the marker with its underscore does not occur, the unpacking when
  the label has no underscore. The two vocabulary checks that follow only print.
\<close>

definition summary_label :: "string \<Rightarrow> string \<Rightarrow> error + string" where
  "summary_label marker file =
     (case py_split marker file of
        _ # part # _ \<Rightarrow>
          (let label = py_replace ''.csv'' '''' part
           in (case py_split1 ''_'' label of
                 [channel, attribute] \<Rightarrow> Inr label
               | _ \<Rightarrow> Inl ValueError))
      | _ \<Rightarrow> Inl IndexError)"

text \<open>
  The first loop of both parsers: over \<open>os.listdir(data_dir)\<close>, every CSV file whose name
  contains the marker (\<open>summary_positions\<close> or \<open>summary_wells\<close>) is read and stored under its
  label.
\<close>

fun read_summary_files ::
  "string \<Rightarrow> directory \<Rightarrow> (string \<times> frame) list \<Rightarrow> error + (string \<times> frame) list" where
  "read_summary_files kind [] data_dict_raw = Inr data_dict_raw"
| "read_summary_files kind ((file, entry) # rest) data_dict_raw =
     (if endswith file ''.csv'' \<and> contains kind file
      then bind (summary_label (kind @ ''_'') file) (\<lambda>label.
           bind (read_csv entry) (\<lambda>df.
           read_summary_files kind rest (dict_set label df data_dict_raw)))
      else read_summary_files kind rest data_dict_raw)"

text \<open>
  Header normalisation. \<open>df.drop(columns=[l])\<close> removes every column labelled \<open>l\<close>;
  \<open>df.columns[0]\<close> fails on a table without columns and \<open>df.iloc[0,1:]\<close> on one without
  rows; \<open>df.iloc[2:,:]\<close> drops the first two rows.
\<close>

definition select :: "bool list \<Rightarrow> 'a list \<Rightarrow> 'a list" where
  "select keep xs = map snd (filter fst (zip keep xs))"

definition drop_label :: "cell \<Rightarrow> frame \<Rightarrow> frame" where
  "drop_label l df =
     (let keep = map (\<lambda>c. c \<noteq> l) (columns df)
      in \<lparr>columns = select keep (columns df), rows = map (select keep) (rows df)\<rparr>)"

definition drop_scan :: "frame \<Rightarrow> error + frame" where
  "drop_scan df =
     (case columns df of
        [] \<Rightarrow> Inl IndexError
      | c # _ \<Rightarrow> if c = Str ''Scan'' then Inr (drop_label c df) else Inr df)"

definition promote_first_row :: "frame \<Rightarrow> error + frame" where
  "promote_first_row df =
     (case columns df of
        [] \<Rightarrow> Inl IndexError
      | c # _ \<Rightarrow>
          (case rows df of
             [] \<Rightarrow> Inl IndexError
           | r # _ \<Rightarrow> Inr (df\<lparr>columns := c # drop 1 r\<rparr>)))"

definition drop_two_rows :: "frame \<Rightarrow> frame" where
  "drop_two_rows df = df\<lparr>rows := drop 2 (rows df)\<rparr>"

text \<open>
  \<^verbatim>\<open>all(['Position 1' in col for col in df.columns[1:]])\<close>: the list is built first, so a
  label that is not a string raises before \<open>all\<close> looks at any element.
\<close>

definition position_check :: "cell list \<Rightarrow> error + bool" where
  "position_check cols =
     bind (mapM (\<lambda>col. case col of Str s \<Rightarrow> Inr (contains ''Position 1'' s) | _ \<Rightarrow> Inl TypeError)
                (drop 1 cols))
          (\<lambda>found. Inr (list_all id found))"

text \<open>
  \<open>parse_position_summary_files\<close> returns \<open>False\<close> or the dictionary
  \<open>data_dict_processed\<close>. Its second loop normalises each table and checks the layout, and
  assigns the normalised table to the loop variable \<open>df\<close> only: no statement stores it in
  \<open>data_dict_processed\<close>, which is returned as it was created.
  \<^verbatim>\<open>
  data_dict_processed={}
  for label, df in data_dict_raw.items():
      if df.columns[0]=='Scan':
          df=df.drop(columns=[df.columns[0]])
      df.columns=[df.columns[0]] + df.iloc[0,1:].tolist()
      df=df.iloc[2:,:]
      if all(['Position 1' in col for col in df.columns[1:]]):
          df.columns=[df.columns[0]] + [col.replace(' - Position 1','') for col in df.columns[1:]]
      else:
          return False
  return data_dict_processed
  \<close>
  \<open>truthy\<close> is Python's truth value of the result: \<open>False\<close> and the empty dictionary are
  both false.
\<close>

datatype parsed = PyFalse | Tables "(string \<times> frame) list"

fun truthy :: "parsed \<Rightarrow> bool" where
  "truthy PyFalse = False"
| "truthy (Tables data_dict) = (data_dict \<noteq> [])"

fun position_loop ::
  "(string \<times> frame) list \<Rightarrow> (string \<times> frame) list \<Rightarrow> error + parsed" where
  "position_loop [] data_dict_processed = Inr (Tables data_dict_processed)"
| "position_loop ((label, df) # rest) data_dict_processed =
     bind (drop_scan df) (\<lambda>df.
     bind (promote_first_row df) (\<lambda>df.
     let df = drop_two_rows df in
     bind (position_check (columns df)) (\<lambda>ok.
       if ok
       then (let df = df\<lparr>columns := take 1 (columns df)
                           @ map (\<lambda>col. case col of Str s \<Rightarrow> Str (py_replace '' - Position 1'' '''' s)
                                                   | _ \<Rightarrow> col)
                                 (drop 1 (columns df))\<rparr>
             in position_loop rest data_dict_processed)
       else Inr PyFalse)))"

definition parse_position_summary_files :: "directory \<Rightarrow> error + parsed" where
  "parse_position_summary_files data_dir =
     bind (read_summary_files ''summary_positions'' data_dir []) (\<lambda>data_dict_raw.
     position_loop data_dict_raw [])"

text \<open>
  \<open>parse_well_summary_files\<close>: the same first loop, then per table the \<open>Scan\<close> and
  \<open>Stdev\<close> columns are dropped, the first row is promoted, two rows are dropped, and the
  table is stored (\<open>data_dict_processed[label]=df\<close>).
\<close>

fun well_loop ::
  "(string \<times> frame) list \<Rightarrow> (string \<times> frame) list \<Rightarrow> error + (string \<times> frame) list" where
  "well_loop [] data_dict_processed = Inr data_dict_processed"
| "well_loop ((label, df) # rest) data_dict_processed =
     bind (drop_scan df) (\<lambda>df.
     let df = (if Str ''Stdev'' \<in> set (columns df) then drop_label (Str ''Stdev'') df else df) in
     bind (promote_first_row df) (\<lambda>df.
     let df = drop_two_rows df in
     well_loop rest (dict_set label df data_dict_processed)))"

definition parse_well_summary_files :: "directory \<Rightarrow> error + (string \<times> frame) list" where
  "parse_well_summary_files data_dir =
     bind (read_summary_files ''summary_wells'' data_dir []) (\<lambda>data_dict_raw.
     well_loop data_dict_raw [])"

text \<open>
  The choice of the measurement source in \<open>process\<close>:
  \<^verbatim>\<open>
  if not self.parse_position_summary_files(data_dir, possible_channels, possible_attributes):
      data_dict_processed=self.parse_well_summary_files(data_dir, possible_channels, possible_attributes)
  else:
      data_dict_processed=self.parse_position_summary_files(data_dir, possible_channels, possible_attributes)
  \<close>
\<close>

definition summary_tables :: "directory \<Rightarrow> error + (string \<times> frame) list" where
  "summary_tables data_dir =
     bind (parse_position_summary_files data_dir) (\<lambda>attempt.
       if \<not> truthy attempt
       then parse_well_summary_files data_dir
       else bind (parse_position_summary_files data_dir) (\<lambda>again.
              case again of Tables data_dict_processed \<Rightarrow> Inr data_dict_processed
                          | PyFalse \<Rightarrow> Inl AttributeError))"

lemma position_loop_keeps:
  "position_loop data_dict_raw acc = Inr (Tables t) \<Longrightarrow> t = acc"
  by (induction data_dict_raw acc rule: position_loop.induct)
     (auto simp: bind_def Let_def split: sum.splits if_splits)

lemma parse_position_never_truthy:
  "parse_position_summary_files data_dir = Inr r \<Longrightarrow> \<not> truthy r"
  by (cases r) (auto simp: parse_position_summary_files_def bind_def split: sum.splits dest: position_loop_keeps)

text \<open>
  Claim C1 (fails on the code). The claim has \<open>process\<close> take the per-position tables
  whenever the layout check passes for every file. In the code the per-position parser
  never returns a non-empty dictionary, so its result is never true and \<open>process\<close> takes
  the per-well path whenever the per-position parser returns at all: the measurement tables
  are those of \<open>parse_well_summary_files\<close>.
\<close>

theorem summary_tables_well_path:
  "summary_tables data_dir =
     bind (parse_position_summary_files data_dir) (\<lambda>attempt. parse_well_summary_files data_dir)"
proof (cases "parse_position_summary_files data_dir")
  case (Inl e)
  then show ?thesis by (simp add: summary_tables_def bind_def)
next
  case (Inr attempt)
  then have "\<not> truthy attempt" by (rule parse_position_never_truthy)
  with Inr show ?thesis by (simp add: summary_tables_def bind_def)
qed

text \<open>
  A staging directory with one per-position export (wells A1 and A2, two time points) whose
  promoted labels all contain \<open>Position 1\<close>.
\<close>

definition position_frame :: frame where
  "position_frame =
     \<lparr>columns = [Str ''Scan'', Str ''Time'', Str ''Unnamed: 2'', Str ''Unnamed: 3''],
      rows = [[IntV 1, NaN, Str ''Well A1 - Position 1'', Str ''Well A2 - Position 1''],
              [IntV 1, Str ''h'', Str ''%'', Str ''%''],
              [IntV 1, Str ''0'', Str ''10'', Str ''20''],
              [IntV 1, Str ''1'', Str ''12'', Str ''22'']]\<rparr>"

definition position_dir :: directory where
  "position_dir = [(''s1_summary_positions_BF_confluency.csv'', File (Csv position_frame))]"

lemma position_dir_raw:
  "read_summary_files ''summary_positions'' position_dir [] = Inr [(''BF_confluency'', position_frame)]"
  by (simp add: position_dir_def endswith_def suffix_to_prefix contains_def bind_def
      summary_label_def py_split.simps py_replace_def py_split1_def read_csv_def)

lemma position_dir_no_well_files:
  "read_summary_files ''summary_wells'' position_dir [] = Inr []"
  by (simp add: position_dir_def endswith_def suffix_to_prefix contains_def)

lemma position_frame_layout:
  "bind (drop_scan position_frame) (\<lambda>df. bind (promote_first_row df) (\<lambda>df.
     position_check (columns (drop_two_rows df)))) = Inr True"
  by (simp add: position_frame_def drop_scan_def drop_label_def select_def bind_def
      promote_first_row_def drop_two_rows_def position_check_def contains_def)

theorem summary_tables_well_path_witness:
  "read_summary_files ''summary_positions'' position_dir [] = Inr [(''BF_confluency'', position_frame)]
   \<and> bind (drop_scan position_frame) (\<lambda>df. bind (promote_first_row df) (\<lambda>df.
         position_check (columns (drop_two_rows df)))) = Inr True
   \<and> parse_position_summary_files position_dir = Inr (Tables [])
   \<and> summary_tables position_dir = Inr []"
proof -
  have pos: "parse_position_summary_files position_dir = Inr (Tables [])"
    by (simp add: parse_position_summary_files_def position_dir_raw position_frame_def
        drop_scan_def drop_label_def select_def bind_def promote_first_row_def
        drop_two_rows_def position_check_def contains_def)
  have well: "parse_well_summary_files position_dir = Inr []"
    by (simp add: parse_well_summary_files_def position_dir_no_well_files bind_def)
  from pos well summary_tables_well_path [of position_dir]
  have "summary_tables position_dir = Inr []" by (simp add: bind_def)
  with pos position_dir_raw position_frame_layout show ?thesis by simp
qed

section \<open>Table operations\<close>

text \<open>
  The model does not compute in float64 itself. What the libraries do with floats is a
  parameter of the model: how \<open>pd.to_numeric\<close> reads a string (an integer, a float, or
  \<open>None\<close> when it is not a number), \<open>Series.round(2)\<close> on one float, \<open>str\<close> of a float, and
  the mean and the sample standard deviation that pandas computes of a list of values
  (of at least one and at least two values). A float cell holds a finite float64 value,
  as a real number; infinities are outside the model.
\<close>

record float_ops =
  parse_number :: "string \<Rightarrow> (int + real) option"
  round2 :: "real \<Rightarrow> real"
  repr_float :: "real \<Rightarrow> string"
  float_mean :: "real list \<Rightarrow> real"
  float_std :: "real list \<Rightarrow> real"

text \<open>\<open>str(x)\<close> of a cell value, as \<open>astype(str)\<close> and f-strings render it.\<close>

definition cell_str :: "float_ops \<Rightarrow> cell \<Rightarrow> string" where
  "cell_str fl c =
     (case c of Str s \<Rightarrow> s | IntV i \<Rightarrow> str_int i | FloatV r \<Rightarrow> repr_float fl r | NaN \<Rightarrow> ''nan'')"

text \<open>
  Reading and writing a table by position. Rows of a table have one cell per column;
  \<open>cell_at\<close> is total (a missing cell reads as \<open>NaN\<close>) so that the model is defined on
  every value of the record type.
\<close>

definition notna :: "cell \<Rightarrow> bool" where
  "notna c = (c \<noteq> NaN)"

definition cell_at :: "cell list \<Rightarrow> nat \<Rightarrow> cell" where
  "cell_at row j = (if j < length row then row ! j else NaN)"

definition column_values :: "nat \<Rightarrow> frame \<Rightarrow> cell list" where
  "column_values j df = map (\<lambda>row. cell_at row j) (rows df)"

definition put_column :: "nat \<Rightarrow> cell list \<Rightarrow> frame \<Rightarrow> frame" where
  "put_column j values df = df\<lparr>rows := map (\<lambda>(row, v). row[j := v]) (zip (rows df) values)\<rparr>"

definition map_column :: "nat \<Rightarrow> (cell list \<Rightarrow> cell list) \<Rightarrow> frame \<Rightarrow> frame" where
  "map_column j f df = put_column j (f (column_values j df)) df"

text \<open>
  Access by label: the position of the first column with that label. \<open>df[l] = values\<close>
  overwrites the column when the label is present and appends it otherwise.
\<close>

definition column_index :: "cell \<Rightarrow> frame \<Rightarrow> nat option" where
  "column_index l df =
     (case filter (\<lambda>j. columns df ! j = l) [0..<length (columns df)] of
        [] \<Rightarrow> None
      | j # _ \<Rightarrow> Some j)"

definition rename_label :: "cell \<Rightarrow> cell \<Rightarrow> frame \<Rightarrow> frame" where
  "rename_label old new df = df\<lparr>columns := map (\<lambda>c. if c = old then new else c) (columns df)\<rparr>"

definition assign_column :: "cell \<Rightarrow> cell list \<Rightarrow> frame \<Rightarrow> frame" where
  "assign_column l values df =
     (case column_index l df of
        Some j \<Rightarrow> put_column j values df
      | None \<Rightarrow> \<lparr>columns = columns df @ [l],
                  rows = map (\<lambda>(row, v). row @ [v]) (zip (rows df) values)\<rparr>)"

definition assign_constant :: "cell \<Rightarrow> cell \<Rightarrow> frame \<Rightarrow> frame" where
  "assign_constant l v df = assign_column l (map (\<lambda>_. v) (rows df)) df"

text \<open>
  The dtype of a column. A column that holds a string has dtype \<open>object\<close> and keeps every
  value as it is. Otherwise it is an integer column when every value is an integer, and a
  float column when a value is a float or missing: then its integers are floats
  (\<open>settle\<close>). pandas settles the dtype of a column whenever it builds one from parts.
  \<open>pd.to_numeric(series, errors='coerce')\<close> reads every string as a number, or as missing.
\<close>

definition is_int :: "cell \<Rightarrow> bool" where
  "is_int c = (case c of IntV _ \<Rightarrow> True | _ \<Rightarrow> False)"

definition is_str :: "cell \<Rightarrow> bool" where
  "is_str c = (case c of Str _ \<Rightarrow> True | _ \<Rightarrow> False)"

definition as_float :: "cell \<Rightarrow> cell" where
  "as_float c = (case c of IntV i \<Rightarrow> FloatV (of_int i) | _ \<Rightarrow> c)"

definition settle :: "cell list \<Rightarrow> cell list" where
  "settle series =
     (if list_ex is_str series \<or> list_all is_int series then series else map as_float series)"

definition coerce :: "float_ops \<Rightarrow> cell \<Rightarrow> cell" where
  "coerce fl c =
     (case c of
        Str s \<Rightarrow> (case parse_number fl s of
                    Some (Inl i) \<Rightarrow> IntV i
                  | Some (Inr r) \<Rightarrow> FloatV r
                  | None \<Rightarrow> NaN)
      | _ \<Rightarrow> c)"

definition to_numeric :: "float_ops \<Rightarrow> cell list \<Rightarrow> cell list" where
  "to_numeric fl series = settle (map (coerce fl) series)"

definition round_series :: "float_ops \<Rightarrow> cell list \<Rightarrow> cell list" where
  "round_series fl series =
     map (\<lambda>c. case c of FloatV r \<Rightarrow> FloatV (round2 fl r) | _ \<Rightarrow> c) series"

text \<open>
  \<open>pd.melt(df, id_vars=[id_var], var_name=var_name, value_name=value_name)\<close>: one row per
  row and per column other than the id column, column after column; the value column is
  built from all of them. A missing id column is a \<open>KeyError\<close>; a value name that is
  already a column label is refused.
\<close>

definition melt :: "cell \<Rightarrow> cell \<Rightarrow> cell \<Rightarrow> frame \<Rightarrow> error + frame" where
  "melt id_var var_name value_name df =
     (case column_index id_var df of
        None \<Rightarrow> Inl KeyError
      | Some k \<Rightarrow>
          if value_name \<in> set (columns df) then Inl ValueError
          else
            let value_vars = filter (\<lambda>j. columns df ! j \<noteq> id_var) [0..<length (columns df)]
            in Inr (map_column 2 settle
                     \<lparr>columns = [id_var, var_name, value_name],
                      rows = concat (map (\<lambda>j. map (\<lambda>row. [cell_at row k, columns df ! j, cell_at row j])
                                                  (rows df))
                                         value_vars)\<rparr>))"

section \<open>Metadata parser\<close>

text \<open>
  \<open>open(os.path.join(path, name))\<close> where \<open>path\<close> is an entry of the staging directory: it
  succeeds only when the entry is a sub-directory holding a regular file of that name.
\<close>

definition open_in :: "node \<Rightarrow> string \<Rightarrow> error + content" where
  "open_in entry name =
     (case entry of
        File _ \<Rightarrow> Inl NotADirectoryError
      | Dir entries \<Rightarrow>
          (case map_of entries name of
             None \<Rightarrow> Inl FileNotFoundError
           | Some (Dir _) \<Rightarrow> Inl IsADirectoryError
           | Some (File c) \<Rightarrow> Inr c))"

definition json_load :: "content \<Rightarrow> error + wellgroup list" where
  "json_load c = (case c of Json groups \<Rightarrow> Inr groups | _ \<Rightarrow> Inl ValueError)"

text \<open>
  \<^verbatim>\<open>
  class MetadataParser:
      def parse_json_metadata(self, json_path: str) -> dict:
          """
          json_path: Path to directory containing AnalysisWellGroup.json
          """
          with open(os.path.join(json_path, "AnalysisWellGroup.json"), 'r') as f:
              content = json.load(f)
          metadata_dict = {group["GroupName"]: [self._well_to_label(w) for w in group["SelectedWells"]]
                    for group in content["AnalysisWellGroupsCollection"]}
          metadata_rows=[]
          for group, wells in metadata_dict.items():
              for well in wells:
                  metadata_rows.append({"Well":well, "Well Group":group})
          metadata=pd.DataFrame(metadata_rows)
          return metadata
  \<close>
  The class \<open>MetadataParser\<close> defines \<open>parse_json_metadata\<close> and \<open>parse_disco_bio_excel\<close>
  only: \<open>_well_to_label\<close> is a method of \<open>CytenaProcessor\<close>, so the attribute lookup
  \<open>self._well_to_label\<close> raises inside \<open>MetadataParser\<close>. \<open>pd.DataFrame\<close> of an empty list
  of records has no columns.
\<close>

definition MetadataParser_well_to_label :: "well \<Rightarrow> error + string" where
  "MetadataParser_well_to_label w = Inl AttributeError"

definition data_frame :: "cell list \<Rightarrow> cell list list \<Rightarrow> frame" where
  "data_frame keys records =
     (if records = [] then \<lparr>columns = [], rows = []\<rparr> else \<lparr>columns = keys, rows = records\<rparr>)"

definition parse_json_metadata :: "node \<Rightarrow> error + frame" where
  "parse_json_metadata json_path =
     bind (open_in json_path ''AnalysisWellGroup.json'') (\<lambda>f.
     bind (json_load f) (\<lambda>content.
     bind (mapM (\<lambda>group.
             bind (mapM MetadataParser_well_to_label (SelectedWells group)) (\<lambda>labels.
             Inr (GroupName group, labels)))
           content) (\<lambda>items.
     let metadata_dict = fold (\<lambda>(group, wells). dict_set group wells) items [];
         metadata_rows = concat (map (\<lambda>(group, wells). map (\<lambda>well. [Str well, Str group]) wells)
                                     metadata_dict)
     in Inr (data_frame [Str ''Well'', Str ''Well Group''] metadata_rows))))"


subsection \<open>The plate-grid layout\<close>

text \<open>
  Strings of the model are sequences of 8-bit characters (Latin-1). There \<open>str.isdigit\<close>
  accepts the ASCII digits and the superscripts 1, 2 and 3, which \<open>int\<close> refuses; the
  pattern \<^verbatim>\<open>\d\<close> matches the ASCII digits only.
\<close>

definition isdigit_char :: "char \<Rightarrow> bool" where
  "isdigit_char c = (c \<in> set ''0123456789'' \<or> c \<in> {CHR 0xB2, CHR 0xB3, CHR 0xB9})"

definition py_isdigit :: "string \<Rightarrow> bool" where
  "py_isdigit s = (s \<noteq> [] \<and> list_all isdigit_char s)"

definition digit_value :: "char \<Rightarrow> nat" where
  "digit_value c = length (takeWhile (\<lambda>d. d \<noteq> c) ''0123456789'')"

definition py_int :: "string \<Rightarrow> error + int" where
  "py_int s =
     (if s \<noteq> [] \<and> list_all (\<lambda>c. c \<in> set ''0123456789'') s
      then Inr (int (fold (\<lambda>c n. 10 * n + digit_value c) s 0))
      else Inl ValueError)"

text \<open>
  \<^verbatim>\<open>str.replace(r' \(PPB-\d+\)', '', regex=True)\<close>: \<open>ppb_match s\<close> is the length of a match
  at the start of \<open>s\<close>, and \<open>ppb_strip\<close> removes every match, left to right.
\<close>

definition ppb_match :: "string \<Rightarrow> nat option" where
  "ppb_match s =
     (if prefix '' (PPB-'' s
      then (let digits = takeWhile (\<lambda>c. c \<in> set ''0123456789'') (drop 6 s)
            in if digits \<noteq> [] \<and> prefix '')'' (drop (6 + length digits) s)
               then Some (7 + length digits) else None)
      else None)"

function ppb_strip :: "string \<Rightarrow> string" where
  "ppb_strip [] = []"
| "ppb_strip (c # cs) =
     (case ppb_match (c # cs) of
        Some n \<Rightarrow> ppb_strip (drop n (c # cs))
      | None \<Rightarrow> c # ppb_strip cs)"
  by pat_completeness auto
termination
proof (relation "measure length")
  show "wf (measure length)" by simp
next
  fix c :: char and cs n
  assume "ppb_match (c # cs) = Some n"
  then have "0 < n" by (auto simp: ppb_match_def Let_def split: if_splits)
  then show "(drop n (c # cs), c # cs) \<in> measure length" by simp
next
  fix c :: char and cs
  show "(cs, c # cs) \<in> measure length" by simp
qed

text \<open>
  \<^verbatim>\<open>
  def parse_disco_bio_excel(self, metadata:pd.DataFrame) -> dict:
      unique_values=metadata.iloc[:,1].unique()
      expected_values=list(string.ascii_uppercase[:8])
      if set(unique_values)==set(expected_values):
          metadata.rename(columns={metadata.columns[1]: "well column"}, inplace=True)
      for col in metadata.columns:
          if metadata[col].notna().sum()==1:
              value=metadata[col].dropna().values[0]
              metadata[col]=value
      for col in metadata.columns[2:]:
          if metadata[col].dtype == object:
              metadata[col]=metadata[col].str.replace(r' \(PPB-\d+\)', '', regex=True)
      metadata['Ab conc.\n[nM]']=pd.to_numeric(metadata['Ab conc.\n[nM]'], errors='coerce')
      metadata['Ab conc.\n[nM]']=metadata['Ab conc.\n[nM]'].round(2)
  \<close>
  (the checks that only print are left out). A column has dtype \<open>object\<close> when it holds a
  string; \<open>.str.replace\<close> on such a column turns every value that is not a string into a
  missing one. The model follows the source in three parts: this preparation, the
  annotation loop, and the reshaping.
\<close>

definition conc_label :: cell where
  "conc_label = Str (''Ab conc.'' @ [CHR 0x0A] @ ''[nM]'')"

definition broadcast_single :: "cell list \<Rightarrow> cell list" where
  "broadcast_single series =
     (case filter notna series of
        [value] \<Rightarrow> map (\<lambda>_. value) series
      | _ \<Rightarrow> series)"

definition strip_ppb_series :: "cell list \<Rightarrow> cell list" where
  "strip_ppb_series series =
     (if list_ex is_str series
      then map (\<lambda>c. case c of Str s \<Rightarrow> Str (ppb_strip s) | _ \<Rightarrow> NaN) series
      else series)"

definition disco_prepare :: "float_ops \<Rightarrow> frame \<Rightarrow> error + frame" where
  "disco_prepare fl metadata =
     (if length (columns metadata) < 2 then Inl IndexError
      else
        let unique_values = set (column_values 1 metadata);
            expected_values = map (\<lambda>c. Str [c]) (take 8 ascii_uppercase);
            metadata = (if unique_values = set expected_values
                        then rename_label (columns metadata ! 1) (Str ''well column'') metadata
                        else metadata);
            metadata = fold (\<lambda>j. map_column j broadcast_single)
                            [0..<length (columns metadata)] metadata;
            metadata = fold (\<lambda>j. map_column j strip_ppb_series)
                            [2..<length (columns metadata)] metadata
        in (case column_index conc_label metadata of
              None \<Rightarrow> Inl KeyError
            | Some k \<Rightarrow>
                let metadata = map_column k (to_numeric fl) metadata;
                    metadata = map_column k (round_series fl) metadata
                in Inr metadata))"

text \<open>
  \<^verbatim>\<open>
      for index, row in metadata.iterrows():
          ab_conc=row['Ab conc.\n[nM]']
          for col in metadata.columns[2:]:
              if str(col).isdigit() and 1 <= int(col) <= 8:
                  if pd.notna(row[col]):
                      metadata.at[index, col]=f"{row[col]} ({ab_conc} nM)"
  \<close>
  A column label is a string or, for a numeric header cell, a number; \<open>str\<close> of a float is
  never a digit string.
\<close>

definition titration_column :: "cell \<Rightarrow> error + bool" where
  "titration_column col =
     (case col of
        Str s \<Rightarrow> if py_isdigit s then bind (py_int s) (\<lambda>n. Inr (1 \<le> n \<and> n \<le> 8)) else Inr False
      | IntV i \<Rightarrow> Inr (py_isdigit (str_int i) \<and> 1 \<le> i \<and> i \<le> 8)
      | _ \<Rightarrow> Inr False)"

definition annotate_row :: "float_ops \<Rightarrow> cell list \<Rightarrow> cell list \<Rightarrow> error + cell list" where
  "annotate_row fl cols row =
     (case column_index conc_label \<lparr>columns = cols, rows = []\<rparr> of
        None \<Rightarrow> Inl KeyError
      | Some k \<Rightarrow>
          let ab_conc = cell_at row k
          in bind (mapM (\<lambda>j. bind (titration_column (cols ! j)) (\<lambda>titration.
                          Inr (if titration \<and> notna (cell_at row j)
                               then Str (cell_str fl (cell_at row j) @ '' ('' @ cell_str fl ab_conc @ '' nM)'')
                               else cell_at row j)))
                        [2..<length cols])
                  (\<lambda>cells. Inr (take 2 row @ cells)))"

definition disco_annotate :: "float_ops \<Rightarrow> frame \<Rightarrow> error + frame" where
  "disco_annotate fl metadata =
     bind (mapM (annotate_row fl (columns metadata)) (rows metadata)) (\<lambda>annotated.
     Inr (metadata\<lparr>rows := annotated\<rparr>))"

text \<open>
  \<^verbatim>\<open>
      metadata.drop(columns=['Ab conc.\n[nM]'], inplace=True)
      metadata = metadata.rename(columns={"well column": "Row"})
      long_df = (metadata.melt(id_vars="Row", var_name="Col", value_name="Well Group"))
      long_df["Well"] = long_df["Row"] + long_df["Col"].astype(str)
      long_df = long_df[["Well", "Well Group"]]
      return long_df
  \<close>
  Adding a string to a row letter concatenates; a missing row letter gives a missing well;
  a number plus a string is a \<open>TypeError\<close>.
\<close>

definition well_name :: "float_ops \<Rightarrow> cell \<Rightarrow> cell \<Rightarrow> error + cell" where
  "well_name fl row_letter col =
     (case row_letter of
        Str r \<Rightarrow> Inr (Str (r @ cell_str fl col))
      | NaN \<Rightarrow> Inr NaN
      | _ \<Rightarrow> Inl TypeError)"

definition disco_reshape :: "float_ops \<Rightarrow> frame \<Rightarrow> error + frame" where
  "disco_reshape fl metadata =
     (let metadata = drop_label conc_label metadata;
          metadata = rename_label (Str ''well column'') (Str ''Row'') metadata
      in bind (melt (Str ''Row'') (Str ''Col'') (Str ''Well Group'') metadata) (\<lambda>long_df.
         bind (mapM (\<lambda>row. bind (well_name fl (cell_at row 0) (cell_at row 1)) (\<lambda>well.
                       Inr [well, cell_at row 2]))
                    (rows long_df)) (\<lambda>records.
         Inr \<lparr>columns = [Str ''Well'', Str ''Well Group''], rows = records\<rparr>)))"

definition parse_disco_bio_excel :: "float_ops \<Rightarrow> frame \<Rightarrow> error + frame" where
  "parse_disco_bio_excel fl metadata =
     bind (disco_prepare fl metadata) (\<lambda>metadata.
     bind (disco_annotate fl metadata) (\<lambda>metadata.
     disco_reshape fl metadata))"

subsection \<open>Resolving the metadata source\<close>

text \<open>
  \<^verbatim>\<open>
  excel_files=[file for file in os.listdir(data_dir) if file.endswith('.xlsx')]
  metadata_parser=MetadataParser()
  if len(excel_files)==1:
      excel_path=os.path.join(data_dir,excel_files[0])
      metadata=pd.read_excel(excel_path, engine='openpyxl')
      if metadata.columns[0]=='Well':
          metadata["Well Group"]=metadata[metadata.columns[1:]].astype(str).agg(' '.join, axis=1)
      else:
          metadata=metadata_parser.parse_disco_bio_excel(metadata)
  elif len(excel_files)>1:
      print("ERROR: Multiple Excel files found in data directory. Expects only one Excel file.")
  elif len(excel_files)==0:
      json_files=[file for file in os.listdir(data_dir) if file.endswith('.json')]
      if len(json_files)>1:
          print("ERROR: Multiple JSON files found in data directory")
      elif len(json_files)==0:
          print("ERROR: No JSON file found in data directory. Metadata extraction is not possible.")
      elif len(json_files)==1:
          json_path=os.path.join(data_dir,json_files[0])
          metadata=metadata_parser.parse_json_metadata(json_path)
  \<close>
  The local variable \<open>metadata\<close> is assigned in three of the six branches only. The model
  returns \<open>Some\<close> table where it is assigned and \<open>None\<close> where the name stays unbound; a
  later read of an unbound name raises \<open>UnboundLocalError\<close>.
\<close>

definition read_excel :: "node \<Rightarrow> error + frame" where
  "read_excel entry =
     (case entry of
        Dir _ \<Rightarrow> Inl IsADirectoryError
      | File (Xlsx df) \<Rightarrow> Inr df
      | File _ \<Rightarrow> Inl ParserError)"

definition template_metadata :: "float_ops \<Rightarrow> frame \<Rightarrow> frame" where
  "template_metadata fl metadata =
     assign_column (Str ''Well Group'')
       (map (\<lambda>row. Str (py_join '' '' (map (cell_str fl) (drop 1 row)))) (rows metadata))
       metadata"

definition resolve_metadata :: "float_ops \<Rightarrow> directory \<Rightarrow> error + frame option" where
  "resolve_metadata fl data_dir =
     (let excel_files = filter (\<lambda>(file, entry). endswith file ''.xlsx'') data_dir
      in case excel_files of
           [(file, entry)] \<Rightarrow>
             bind (read_excel entry) (\<lambda>metadata.
               case columns metadata of
                 [] \<Rightarrow> Inl IndexError
               | c # _ \<Rightarrow>
                   if c = Str ''Well'' then Inr (Some (template_metadata fl metadata))
                   else bind (parse_disco_bio_excel fl metadata) (\<lambda>metadata. Inr (Some metadata)))
         | _ # _ # _ \<Rightarrow> Inr None
         | [] \<Rightarrow>
             (let json_files = filter (\<lambda>(file, entry). endswith file ''.json'') data_dir
              in case json_files of
                   [(file, entry)] \<Rightarrow>
                     bind (parse_json_metadata entry) (\<lambda>metadata. Inr (Some metadata))
                 | _ \<Rightarrow> Inr None))"

section \<open>Reshape and join\<close>

text \<open>
  \<^verbatim>\<open>
  for label, df in data_dict_processed.items():
      df.columns=[df.columns[0]] + [col.replace('Well ','') for col in df.columns[1:]]
      df=df.apply(pd.to_numeric, errors='coerce')
      df.columns=[col.strip() if isinstance(col, str) else col for col in df.columns]
      data_dict_processed[label]=df.reset_index(drop=True)
  \<close>
  A promoted label that is not a string has no \<open>replace\<close> method.
\<close>

definition is_space :: "char \<Rightarrow> bool" where
  "is_space c = (c \<in> set [CHR '' '', CHR 0x09, CHR 0x0A, CHR 0x0B, CHR 0x0C, CHR 0x0D,
                           CHR 0x1C, CHR 0x1D, CHR 0x1E, CHR 0x1F, CHR 0x85, CHR 0xA0])"

definition strip_chars :: "(char \<Rightarrow> bool) \<Rightarrow> string \<Rightarrow> string" where
  "strip_chars P s = rev (dropWhile P (rev (dropWhile P s)))"

definition numeric_table :: "float_ops \<Rightarrow> frame \<Rightarrow> error + frame" where
  "numeric_table fl df =
     (case columns df of
        [] \<Rightarrow> Inl IndexError
      | c # cs \<Rightarrow>
          bind (mapM (\<lambda>col. case col of Str s \<Rightarrow> Inr (Str (py_replace ''Well '' [] s))
                                       | _ \<Rightarrow> Inl AttributeError) cs) (\<lambda>renamed.
          let df = df\<lparr>columns := c # renamed\<rparr>;
              df = fold (\<lambda>j. map_column j (to_numeric fl)) [0..<length (columns df)] df;
              df = df\<lparr>columns := map (\<lambda>col. case col of Str s \<Rightarrow> Str (strip_chars is_space s)
                                                      | _ \<Rightarrow> col) (columns df)\<rparr>
          in Inr df))"

text \<open>
  \<^verbatim>\<open>
  data_dict_long={}
  for label, df in data_dict_processed.items():
      df_long=pd.melt(df, id_vars=[df.columns[0]], var_name='Well', value_name=label.split('_',1)[1])
      data_dict_long[label]=df_long
  \<close>
\<close>

fun map_values :: "('v \<Rightarrow> error + 'w) \<Rightarrow> ('k \<times> 'v) list \<Rightarrow> error + ('k \<times> 'w) list" where
  "map_values f [] = Inr []"
| "map_values f ((k, v) # kvs) =
     bind (f v) (\<lambda>w. bind (map_values f kvs) (\<lambda>rest. Inr ((k, w) # rest)))"

definition melt_table :: "string \<times> frame \<Rightarrow> error + string \<times> frame" where
  "melt_table item =
     (case item of (label, df) \<Rightarrow>
        (case columns df of
           [] \<Rightarrow> Inl IndexError
         | c # _ \<Rightarrow>
             (case py_split1 ''_'' label of
                [channel, attribute] \<Rightarrow>
                  bind (melt c (Str ''Well'') (Str attribute) df) (\<lambda>df_long. Inr (label, df_long))
              | _ \<Rightarrow> Inl IndexError)))"

text \<open>
  \<open>pd.merge(left, right, on=keys, how='left')\<close>: every row of \<open>left\<close>, in order, once per row
  of \<open>right\<close> with equal key values (in the order of \<open>right\<close>), or once with missing values when
  there is none. Numbers are compared by value and missing keys match each other. The
  columns of \<open>left\<close> come first and keep their dtype; the columns taken from \<open>right\<close> are
  built anew. A column that is not a key and is present on both sides gets the suffixes
  \<open>_x\<close> and \<open>_y\<close>. Not modelled: the refusal of pandas to join a string key column with a
  numeric one, and tables with repeated column labels.
\<close>

definition position :: "cell \<Rightarrow> cell list \<Rightarrow> nat" where
  "position l cols = length (takeWhile (\<lambda>c. c \<noteq> l) cols)"

definition key_values :: "cell list \<Rightarrow> cell list \<Rightarrow> cell list \<Rightarrow> cell list" where
  "key_values on cols row = map (\<lambda>l. as_float (cell_at row (position l cols))) on"

definition matches :: "cell list \<Rightarrow> frame \<Rightarrow> frame \<Rightarrow> cell list \<Rightarrow> cell list list" where
  "matches on left right l =
     filter (\<lambda>r. key_values on (columns right) r = key_values on (columns left) l) (rows right)"

definition other_columns :: "cell list \<Rightarrow> frame \<Rightarrow> nat list" where
  "other_columns on right =
     filter (\<lambda>j. columns right ! j \<notin> set on) [0..<length (columns right)]"

definition merged_rows :: "cell list \<Rightarrow> frame \<Rightarrow> frame \<Rightarrow> cell list \<Rightarrow> cell list list" where
  "merged_rows on left right l =
     (case matches on left right l of
        [] \<Rightarrow> [l @ map (\<lambda>j. NaN) (other_columns on right)]
      | found \<Rightarrow> map (\<lambda>r. l @ map (cell_at r) (other_columns on right)) found)"

definition merge_left :: "float_ops \<Rightarrow> cell list \<Rightarrow> frame \<Rightarrow> frame \<Rightarrow> error + frame" where
  "merge_left fl on left right =
     (if \<not> (set on \<subseteq> set (columns left) \<and> set on \<subseteq> set (columns right)) then Inl KeyError
      else
        let overlap = (\<lambda>l. l \<notin> set on \<and> l \<in> set (columns left) \<and> l \<in> set (columns right));
            renamer = (\<lambda>suffix l. if overlap l then Str (cell_str fl l @ suffix) else l);
            merged = \<lparr>columns = map (renamer ''_x'') (columns left)
                            @ map (\<lambda>j. renamer ''_y'' (columns right ! j)) (other_columns on right),
                      rows = concat (map (merged_rows on left right) (rows left))\<rparr>
        in Inr (fold (\<lambda>j. map_column j settle)
                     [length (columns left)..<length (columns merged)] merged))"

text \<open>
  \<^verbatim>\<open>
  merged_dfs=[]
  for label, df in data_dict_long.items():
      channel=label.split('_')[0]
      df["channel"]=channel
      merged_df=pd.merge(df, metadata, on='Well', how='left')
      merged_dfs.append(merged_df)
  \<close>
\<close>

definition join_metadata ::
  "float_ops \<Rightarrow> frame option \<Rightarrow> string \<times> frame \<Rightarrow> error + frame" where
  "join_metadata fl metadata item =
     (case item of (label, df) \<Rightarrow>
        let channel = hd (py_split ''_'' label);
            df = assign_constant (Str ''channel'') (Str channel) df
        in (case metadata of
              None \<Rightarrow> Inl UnboundLocalError
            | Some metadata \<Rightarrow> merge_left fl [Str ''Well''] df metadata))"

text \<open>
  \<^verbatim>\<open>
  merged_dfs_final=[]
  channels=possible_channels.keys()
  cols_to_merge=[col for col in metadata.columns] + ['Time', 'channel']
  for channel in channels:
      dfs_to_merge=[df for df in merged_dfs if df['channel'].iloc[0]==channel]
      if len(dfs_to_merge)>1:
          merged_df_channel=dfs_to_merge[0]
          for df in dfs_to_merge[1:]:
              merged_df_channel=pd.merge(merged_df_channel, df, on=cols_to_merge, how='left')
          merged_dfs_final.append(merged_df_channel)
      elif len(dfs_to_merge)==1:
          merged_dfs_final.append(dfs_to_merge[0])
  \<close>
  \<open>df['channel'].iloc[0]\<close> fails on a table without that column or without rows.
\<close>

definition first_channel :: "frame \<Rightarrow> error + cell" where
  "first_channel df =
     (case column_index (Str ''channel'') df of
        None \<Rightarrow> Inl KeyError
      | Some j \<Rightarrow> (case rows df of [] \<Rightarrow> Inl IndexError | row # _ \<Rightarrow> Inr (cell_at row j)))"

fun merge_chain :: "float_ops \<Rightarrow> cell list \<Rightarrow> frame \<Rightarrow> frame list \<Rightarrow> error + frame" where
  "merge_chain fl on merged_df_channel [] = Inr merged_df_channel"
| "merge_chain fl on merged_df_channel (df # dfs) =
     bind (merge_left fl on merged_df_channel df) (\<lambda>merged_df_channel.
     merge_chain fl on merged_df_channel dfs)"

definition possible_channels :: "(string \<times> string) list" where
  "possible_channels =
     [(''BF'', ''brightfield''), (''green'', ''green''), (''EC'', ''enhanced contrast'')]"

definition possible_attributes :: "(string \<times> string) list" where
  "possible_attributes =
     [(''total_intensity'', ''AU''), (''average_mean_intensity'', ''AU''),
      (''relative_spheroid_area'', ''%''), (''total_spheroid_area'', ''mm2''),
      (''relative_fluorescence_area'', ''%''), (''confluency'', ''%''),
      (''total_area'', ''mm2''), (''object_count'', ''1/mm2''),
      (''object_count_per_fov'', ''per FOV'')]"

fun merge_channels ::
  "float_ops \<Rightarrow> cell list \<Rightarrow> frame list \<Rightarrow> string list \<Rightarrow> frame list \<Rightarrow> error + frame list" where
  "merge_channels fl cols_to_merge merged_dfs [] merged_dfs_final = Inr merged_dfs_final"
| "merge_channels fl cols_to_merge merged_dfs (channel # channels) merged_dfs_final =
     bind (mapM first_channel merged_dfs) (\<lambda>firsts.
       let dfs_to_merge = map fst (filter (\<lambda>(df, c). c = Str channel) (zip merged_dfs firsts))
       in (case dfs_to_merge of
             [] \<Rightarrow> merge_channels fl cols_to_merge merged_dfs channels merged_dfs_final
           | [df] \<Rightarrow> merge_channels fl cols_to_merge merged_dfs channels (merged_dfs_final @ [df])
           | df # dfs \<Rightarrow>
               bind (merge_chain fl cols_to_merge df dfs) (\<lambda>merged_df_channel.
               merge_channels fl cols_to_merge merged_dfs channels
                 (merged_dfs_final @ [merged_df_channel]))))"

text \<open>
  \<open>pd.concat(dfs, axis=0, ignore_index=True)\<close>: the rows of all tables under the union of
  their columns, in order of first appearance; an empty list is refused.
\<close>

definition concat_frames :: "frame list \<Rightarrow> error + frame" where
  "concat_frames dfs =
     (if dfs = [] then Inl ValueError
      else
        let cols = rev (remdups (rev (concat (map columns dfs))));
            stacked = \<lparr>columns = cols,
                       rows = concat (map (\<lambda>df. map (\<lambda>row. map (\<lambda>l. case column_index l df of
                                                               Some j \<Rightarrow> cell_at row j
                                                             | None \<Rightarrow> NaN) cols)
                                              (rows df)) dfs)\<rparr>
        in Inr (fold (\<lambda>j. map_column j settle) [0..<length cols] stacked))"

subsection \<open>Aggregation\<close>

text \<open>
  \<^verbatim>\<open>
  aggregate_cols=['Well Group', 'Time', 'channel']
  attribute_cols=[col for col in results.columns if col in possible_attributes.keys()]
  results_agg=results.groupby(aggregate_cols)[attribute_cols].agg(['mean','std']).reset_index()
  results_agg.columns=['_'.join(col).strip('_') for col in results_agg.columns.values]
  results_agg.columns = results_agg.columns.str.replace(r'_mean$', '_avg', regex=True)
  \<close>
  \<open>groupby\<close> (with its defaults \<open>sort=True\<close>, \<open>dropna=True\<close>) leaves out every row with a
  missing key value and returns the groups in the order of their keys: numbers by value,
  strings by code points, numbers before strings. \<open>mean\<close> and \<open>std\<close> skip missing values;
  \<open>std\<close> is the sample standard deviation (\<open>ddof=1\<close>), missing for fewer than two values.
  A string among the values is a \<open>TypeError\<close>, and an empty list of attribute columns a
  \<open>ValueError\<close>. The mean and the standard deviation themselves are the library's.
\<close>

fun str_le :: "string \<Rightarrow> string \<Rightarrow> bool" where
  "str_le [] t = True"
| "str_le (a # s) [] = False"
| "str_le (a # s) (b # t) = (if a = b then str_le s t else (of_char a :: nat) < of_char b)"

fun cell_le :: "cell \<Rightarrow> cell \<Rightarrow> bool" where
  "cell_le (FloatV a) (FloatV b) = (a \<le> b)"
| "cell_le (FloatV a) (IntV b) = (a \<le> of_int b)"
| "cell_le (IntV a) (FloatV b) = (of_int a \<le> b)"
| "cell_le (IntV a) (IntV b) = (a \<le> b)"
| "cell_le (Str s) (Str t) = str_le s t"
| "cell_le (Str s) (FloatV b) = False"
| "cell_le (Str s) (IntV b) = False"
| "cell_le (Str s) NaN = True"
| "cell_le NaN NaN = True"
| "cell_le NaN c = False"
| "cell_le c d = True"

fun key_le :: "cell list \<Rightarrow> cell list \<Rightarrow> bool" where
  "key_le [] k = True"
| "key_le (a # h) [] = False"
| "key_le (a # h) (b # k) = (if a = b then key_le h k else cell_le a b)"

fun insert_key :: "cell list \<Rightarrow> cell list list \<Rightarrow> cell list list" where
  "insert_key k [] = [k]"
| "insert_key k (h # hs) = (if key_le k h then k # h # hs else h # insert_key k hs)"

definition sort_keys :: "cell list list \<Rightarrow> cell list list" where
  "sort_keys ks = foldr insert_key ks []"

definition mean :: "float_ops \<Rightarrow> real list \<Rightarrow> cell" where
  "mean fl xs = (if xs = [] then NaN else FloatV (float_mean fl xs))"

definition std :: "float_ops \<Rightarrow> real list \<Rightarrow> cell" where
  "std fl xs = (if length xs < 2 then NaN else FloatV (float_std fl xs))"

definition numbers :: "cell list \<Rightarrow> error + real list" where
  "numbers series =
     mapM (\<lambda>c. case c of FloatV r \<Rightarrow> Inr r | IntV i \<Rightarrow> Inr (of_int i) | _ \<Rightarrow> Inl TypeError)
          (filter notna series)"

definition flatten_name :: "string \<times> string \<Rightarrow> string" where
  "flatten_name col = strip_chars (\<lambda>c. c = CHR ''_'') (py_join ''_'' [fst col, snd col])"

definition mean_to_avg :: "string \<Rightarrow> string" where
  "mean_to_avg name =
     (if endswith name ''_mean'' then take (length name - 5) name @ ''_avg'' else name)"

definition aggregate_cols :: "string list" where
  "aggregate_cols = [''Well Group'', ''Time'', ''channel'']"

definition group_key :: "frame \<Rightarrow> cell list \<Rightarrow> cell list" where
  "group_key results row =
     map (\<lambda>l. cell_at row (position (Str l) (columns results))) aggregate_cols"

definition attribute_names :: "frame \<Rightarrow> string list" where
  "attribute_names results =
     concat (map (\<lambda>col. case col of Str a \<Rightarrow> if a \<in> set (map fst possible_attributes) then [a] else []
                                   | _ \<Rightarrow> [])
                 (columns results))"

definition grouped_rows :: "frame \<Rightarrow> cell list list" where
  "grouped_rows results = filter (\<lambda>row. list_all notna (group_key results row)) (rows results)"

definition group_values :: "frame \<Rightarrow> cell list \<Rightarrow> string \<Rightarrow> cell list" where
  "group_values results key a =
     map (\<lambda>row. cell_at row (position (Str a) (columns results)))
         (filter (\<lambda>row. group_key results row = key) (grouped_rows results))"

definition aggregate :: "float_ops \<Rightarrow> frame \<Rightarrow> error + frame" where
  "aggregate fl results =
     (let attribute_cols = attribute_names results
      in if \<not> Str ` set aggregate_cols \<subseteq> set (columns results) then Inl KeyError
         else if attribute_cols = [] then Inl ValueError
         else
           let keys = sort_keys (remdups (map (group_key results) (grouped_rows results)))
           in bind (mapM (\<lambda>key.
                      bind (mapM (\<lambda>a. bind (numbers (group_values results key a))
                                           (\<lambda>xs. Inr [mean fl xs, std fl xs]))
                                 attribute_cols) (\<lambda>stats.
                      Inr (key @ concat stats)))
                    keys) (\<lambda>records.
              Inr \<lparr>columns =
                     map (\<lambda>col. Str (mean_to_avg (flatten_name col)))
                       (map (\<lambda>l. (l, [])) aggregate_cols
                        @ concat (map (\<lambda>a. [(a, ''mean''), (a, ''std'')]) attribute_cols)),
                   rows = records\<rparr>))"

section \<open>The pipeline\<close>

text \<open>
  \<^verbatim>\<open>
  def _validate_directory(self, data_dir: str) -> Path:
      dir_path = Path(data_dir)
      if not dir_path.exists():
          raise FileNotFoundError(f"Data directory not found: {data_dir}")
      supported_file_extensions=['.csv', '.xlsx', '.json']
      found_files = []
      for ext in supported_file_extensions:
          found_files.extend(list(dir_path.glob(f'*{ext}')))
      if not found_files:
          raise ValueError(...)
      return dir_path
  \<close>
  The argument of \<open>process\<close> is what the path names: nothing, a regular file, or a
  directory.
\<close>

definition glob_ext :: "string \<Rightarrow> directory \<Rightarrow> string list" where
  "glob_ext ext entries = filter (\<lambda>file. endswith file ext) (listdir entries)"

definition validate_directory :: "node option \<Rightarrow> error + directory" where
  "validate_directory data_dir =
     (case data_dir of
        None \<Rightarrow> Inl FileNotFoundError
      | Some (File _) \<Rightarrow> Inl ValueError
      | Some (Dir entries) \<Rightarrow>
          let supported_file_extensions = [''.csv'', ''.xlsx'', ''.json''];
              found_files = concat (map (\<lambda>ext. glob_ext ext entries) supported_file_extensions)
          in if found_files = [] then Inl ValueError else Inr entries)"

text \<open>
  \<open>process\<close>, in the order of the source: validation, Scan ID, measurement tables, numeric
  coercion, metadata, unpivoting, join, per-channel merge, concatenation, aggregation.
  A \<open>Scan ID\<close> of \<open>None\<close> is a missing cell.
\<close>

definition scan_cell :: "string option \<Rightarrow> cell" where
  "scan_cell scan_id = (case scan_id of None \<Rightarrow> NaN | Some s \<Rightarrow> Str s)"

definition process :: "float_ops \<Rightarrow> node option \<Rightarrow> error + frame \<times> frame" where
  "process fl data_dir =
     bind (validate_directory data_dir) (\<lambda>data_dir.
     let scan_id = extract_scan_id data_dir in
     bind (summary_tables data_dir) (\<lambda>data_dict_processed.
     bind (map_values (numeric_table fl) data_dict_processed) (\<lambda>data_dict_processed.
     bind (resolve_metadata fl data_dir) (\<lambda>metadata.
     bind (mapM melt_table data_dict_processed) (\<lambda>data_dict_long.
     bind (mapM (join_metadata fl metadata) data_dict_long) (\<lambda>merged_dfs.
     bind (case metadata of
             None \<Rightarrow> Inl UnboundLocalError
           | Some metadata \<Rightarrow> Inr (columns metadata @ [Str ''Time'', Str ''channel''])) (\<lambda>cols_to_merge.
     bind (merge_channels fl cols_to_merge merged_dfs (map fst possible_channels) []) (\<lambda>merged_dfs_final.
     bind (concat_frames merged_dfs_final) (\<lambda>results.
     let results = assign_constant (Str ''Scan ID'') (scan_cell scan_id) results in
     bind (aggregate fl results) (\<lambda>results_agg.
     let results_agg = assign_constant (Str ''Scan ID'') (scan_cell scan_id) results_agg
     in Inr (results_agg, results)))))))))))"

section \<open>Properties of the pipeline\<close>

lemma bind_Inl [simp]: "bind (Inl e) f = Inl e"
  by (simp add: bind_def)

lemma bind_Inr [simp]: "bind (Inr x) f = f x"
  by (simp add: bind_def)

lemma bind_error: "m = Inl e \<Longrightarrow> bind m f = Inl e"
  by simp

lemma mapM_guard:
  "mapM (\<lambda>x. if P x then Inl e else Inr (h x)) xs
     = (if list_ex P xs then Inl e else Inr (map h xs))"
  by (induction xs) auto

subsection \<open>The JSON metadata source\<close>

lemma parse_json_metadata_regular_file:
  "parse_json_metadata (File c) = Inl NotADirectoryError"
  by (simp add: parse_json_metadata_def open_in_def)

text \<open>
  Called as documented, on the directory that holds \<open>AnalysisWellGroup.json\<close>, the parser
  raises as soon as one group lists a well: \<open>MetadataParser\<close> has no \<open>_well_to_label\<close>.
\<close>

lemma parse_json_metadata_no_codec:
  assumes "open_in json_path ''AnalysisWellGroup.json'' = Inr (Json groups)"
      and "list_ex (\<lambda>group. SelectedWells group \<noteq> []) groups"
  shows "parse_json_metadata json_path = Inl AttributeError"
proof -
  have wells: "mapM MetadataParser_well_to_label ws = (if ws = [] then Inr [] else Inl AttributeError)" for ws
    by (cases ws) (simp_all add: MetadataParser_well_to_label_def)
  have "mapM (\<lambda>group. bind (mapM MetadataParser_well_to_label (SelectedWells group))
                       (\<lambda>labels. Inr (GroupName group, labels))) groups
        = mapM (\<lambda>group. if SelectedWells group \<noteq> [] then Inl AttributeError
                         else Inr (GroupName group, [])) groups"
    by (rule arg_cong [where f = "\<lambda>f. mapM f groups"]) (auto simp: wells)
  also have "\<dots> = Inl AttributeError"
    using assms(2) by (simp add: mapM_guard)
  finally show ?thesis
    using assms(1) by (simp add: parse_json_metadata_def json_load_def)
qed

text \<open>
  Claim C4 (fails on the code). With no spreadsheet and exactly one JSON file in the staging
  directory, \<open>process\<close> passes the path of that file to \<open>parse_json_metadata\<close>, which opens
  \<open>AnalysisWellGroup.json\<close> below it: a regular file has nothing below it, so the metadata
  resolver raises \<open>NotADirectoryError\<close> and no Well to Well Group table is returned.
\<close>

theorem resolve_metadata_json_file:
  assumes "filter (\<lambda>(file, entry). endswith file ''.xlsx'') data_dir = []"
      and "filter (\<lambda>(file, entry). endswith file ''.json'') data_dir = [(file, File (Json groups))]"
  shows "resolve_metadata fl data_dir = Inl NotADirectoryError"
  using assms by (simp add: resolve_metadata_def parse_json_metadata_regular_file)

text \<open>
  A sample instance of the library functions, for the concrete runs below: unsigned integer
  numerals are read as integers, rounding is to the nearest hundredth, a float is rendered
  with one decimal, and the mean and the standard deviation are computed without rounding
  error. The staging directories hold a per-well export of \<open>total_intensity\<close> for the wells
  A1 and A2 at one time point.
\<close>

definition float_sqrt :: "real \<Rightarrow> real" where
  [code del]: "float_sqrt x = sqrt x"

definition sample_floats :: float_ops where
  "sample_floats =
     \<lparr>parse_number = (\<lambda>s. case py_int s of Inr n \<Rightarrow> Some (Inl n) | Inl _ \<Rightarrow> None),
      round2 = (\<lambda>r. of_int (round (r * 100)) / 100),
      repr_float = (\<lambda>r. str_int \<lfloor>r\<rfloor> @ ''.'' @ str_int (\<lfloor>r * 10\<rfloor> mod 10)),
      float_mean = (\<lambda>xs. sum_list xs / real (length xs)),
      float_std = (\<lambda>xs. float_sqrt (sum_list (map (\<lambda>x. (x - sum_list xs / real (length xs))\<^sup>2) xs)
                                     / real (length xs - 1)))\<rparr>"

definition intensity_frame :: frame where
  "intensity_frame =
     \<lparr>columns = [Str ''Scan'', Str ''Time'', Str ''Stdev'', Str ''Unnamed: 3'', Str ''Unnamed: 4''],
      rows = [[IntV 1, NaN, NaN, Str ''Well A1'', Str ''Well A2''],
              [IntV 1, Str ''h'', Str ''AU'', Str ''AU'', Str ''AU''],
              [IntV 1, Str ''1'', Str ''7'', Str ''10'', Str ''20'']]\<rparr>"

definition json_dir :: directory where
  "json_dir =
     [(''scan42_summary_wells_BF_total_intensity.csv'', File (Csv intensity_frame)),
      (''AnalysisWellGroup.json'',
         File (Json [\<lparr>GroupName = ''G1'',
                      SelectedWells = [\<lparr>Row = 0, Column = 0\<rparr>, \<lparr>Row = 0, Column = 1\<rparr>]\<rparr>]))]"

lemma json_dir_process:
  "process sample_floats (Some (Dir json_dir)) = Inl NotADirectoryError"
  by code_simp

theorem resolve_metadata_json_file_witness:
  "filter (\<lambda>(file, entry). endswith file ''.xlsx'') json_dir = []
   \<and> length (filter (\<lambda>(file, entry). endswith file ''.json'') json_dir) = 1
   \<and> resolve_metadata sample_floats json_dir = Inl NotADirectoryError
   \<and> process sample_floats (Some (Dir json_dir)) = Inl NotADirectoryError"
proof -
  have x: "filter (\<lambda>(file, entry). endswith file ''.xlsx'') json_dir = []"
    by code_simp
  have j: "filter (\<lambda>(file, entry). endswith file ''.json'') json_dir
     = [(''AnalysisWellGroup.json'',
         File (Json [\<lparr>GroupName = ''G1'',
                      SelectedWells = [\<lparr>Row = 0, Column = 0\<rparr>, \<lparr>Row = 0, Column = 1\<rparr>]\<rparr>]))]"
    by code_simp
  from resolve_metadata_json_file [OF x j] x j json_dir_process
  show ?thesis by simp
qed

subsection \<open>Unresolvable metadata\<close>

text \<open>
  The words of the claim: more than one spreadsheet, or no spreadsheet together with no or
  more than one JSON file.
\<close>

definition unresolvable_metadata :: "directory \<Rightarrow> bool" where
  "unresolvable_metadata data_dir =
     (let spreadsheets = length (filter (\<lambda>file. endswith file ''.xlsx'') (listdir data_dir));
          json_files = length (filter (\<lambda>file. endswith file ''.json'') (listdir data_dir))
      in 1 < spreadsheets \<or> (spreadsheets = 0 \<and> json_files \<noteq> 1))"

lemma length_filter_listdir:
  "length (filter (\<lambda>(file, entry). P file) data_dir) = length (filter P (listdir data_dir))"
  by (induction data_dir) (auto simp: listdir_def)

lemma resolve_metadata_unbound:
  assumes "unresolvable_metadata data_dir"
  shows "resolve_metadata fl data_dir = Inr None"
proof -
  define xs where "xs = filter (\<lambda>(file, entry). endswith file ''.xlsx'') data_dir"
  define js where "js = filter (\<lambda>(file, entry). endswith file ''.json'') data_dir"
  from assms have "1 < length xs \<or> (length xs = 0 \<and> length js \<noteq> 1)"
    by (simp add: unresolvable_metadata_def xs_def js_def length_filter_listdir Let_def)
  then show ?thesis
  proof
    assume "1 < length xs"
    then obtain a b rest where "xs = a # b # rest"
      by (cases xs; cases "tl xs") auto
    then show ?thesis
      by (simp add: resolve_metadata_def xs_def [symmetric])
  next
    assume h: "length xs = 0 \<and> length js \<noteq> 1"
    then have "xs = []" by simp
    moreover from h have "js = [] \<or> (\<exists>a b rest. js = a # b # rest)"
      by (cases js; cases "tl js") auto
    ultimately show ?thesis
      by (auto simp: resolve_metadata_def xs_def [symmetric] js_def [symmetric])
  qed
qed

lemma bind_raises: "(\<And>x. \<exists>e. f x = Inl e) \<Longrightarrow> \<exists>e. bind m f = Inl e"
  by (cases m) simp_all

lemma join_unbound:
  "\<exists>e. bind (mapM (join_metadata fl None) data_dict_long) (\<lambda>merged_dfs.
          bind (Inl UnboundLocalError) (g merged_dfs)) = Inl e"
  by (rule bind_raises) simp

text \<open>
  Claim C2 (fails on the code). With unresolvable metadata the branches of \<open>process\<close> only
  print and leave the local variable \<open>metadata\<close> unbound; the first later read of it (the
  join when a measurement table exists, \<open>cols_to_merge\<close> otherwise) raises. So \<open>process\<close>
  never returns a pair of tables for such a directory: it raises, with
  \<open>UnboundLocalError\<close> unless an earlier step has raised already.
\<close>

theorem process_unresolvable_metadata:
  assumes "unresolvable_metadata data_dir"
  shows "resolve_metadata fl data_dir = Inr None
       \<and> (\<exists>e. process fl (Some (Dir data_dir)) = Inl e)"
proof
  show none: "resolve_metadata fl data_dir = Inr None"
    using assms by (rule resolve_metadata_unbound)
  have "validate_directory (Some (Dir data_dir)) = Inl ValueError
      \<or> validate_directory (Some (Dir data_dir)) = Inr data_dir"
    by (simp add: validate_directory_def Let_def)
  then show "\<exists>e. process fl (Some (Dir data_dir)) = Inl e"
  proof
    assume "validate_directory (Some (Dir data_dir)) = Inl ValueError"
    then show ?thesis by (simp add: process_def)
  next
    assume "validate_directory (Some (Dir data_dir)) = Inr data_dir"
    then have "process fl (Some (Dir data_dir)) =
      bind (summary_tables data_dir) (\<lambda>data_dict_processed.
      bind (map_values (numeric_table fl) data_dict_processed) (\<lambda>data_dict_processed.
      bind (mapM melt_table data_dict_processed) (\<lambda>data_dict_long.
      bind (mapM (join_metadata fl None) data_dict_long) (\<lambda>merged_dfs.
      Inl UnboundLocalError))))"
      by (simp add: process_def none)
    also have "\<exists>e. \<dots> = Inl e"
      by (rule bind_raises)+ simp
    finally show ?thesis .
  qed
qed

definition lone_csv_dir :: directory where
  "lone_csv_dir = [(''scan42_summary_wells_BF_total_intensity.csv'', File (Csv intensity_frame))]"

definition two_sheets_dir :: directory where
  "two_sheets_dir =
     [(''scan42_summary_wells_BF_total_intensity.csv'', File (Csv intensity_frame)),
      (''layout.xlsx'', File (Xlsx \<lparr>columns = [Str ''Well'', Str ''Line''], rows = [[Str ''A1'', Str ''HeLa'']]\<rparr>)),
      (''layout_copy.xlsx'', File (Xlsx \<lparr>columns = [Str ''Well'', Str ''Line''], rows = [[Str ''A1'', Str ''HeLa'']]\<rparr>))]"

lemma lone_csv_dir_process:
  "process sample_floats (Some (Dir lone_csv_dir)) = Inl UnboundLocalError"
  by code_simp

lemma two_sheets_dir_process:
  "process sample_floats (Some (Dir two_sheets_dir)) = Inl UnboundLocalError"
  by code_simp

theorem process_unresolvable_metadata_witness:
  "unresolvable_metadata lone_csv_dir
   \<and> resolve_metadata sample_floats lone_csv_dir = Inr None
   \<and> process sample_floats (Some (Dir lone_csv_dir)) = Inl UnboundLocalError
   \<and> unresolvable_metadata two_sheets_dir
   \<and> resolve_metadata sample_floats two_sheets_dir = Inr None
   \<and> process sample_floats (Some (Dir two_sheets_dir)) = Inl UnboundLocalError"
proof -
  have a: "unresolvable_metadata lone_csv_dir" by code_simp
  have b: "unresolvable_metadata two_sheets_dir" by code_simp
  from process_unresolvable_metadata [OF a, of sample_floats]
    process_unresolvable_metadata [OF b, of sample_floats]
    a b lone_csv_dir_process two_sheets_dir_process
  show ?thesis by simp
qed

subsection \<open>Mean and standard deviation per group\<close>

lemma mapM_Inr: "mapM f xs = Inr ys \<longleftrightarrow> list_all2 (\<lambda>x y. f x = Inr y) xs ys"
proof (induction xs arbitrary: ys)
  case Nil
  then show ?case by auto
next
  case (Cons x xs)
  show ?case
  proof (cases "f x")
    case (Inl e)
    then show ?thesis by (auto simp: list_all2_Cons1)
  next
    case fx: (Inr y)
    show ?thesis
    proof (cases "mapM f xs")
      case (Inl e)
      have no: "\<not> list_all2 (\<lambda>x y. f x = Inr y) xs zs" for zs
        using Cons.IH [of zs] Inl by simp
      show ?thesis
        using fx Inl no by (cases ys) simp_all
    next
      case (Inr zs)
      have one: "list_all2 (\<lambda>x y. f x = Inr y) xs ws \<longleftrightarrow> ws = zs" for ws
        using Cons.IH [of ws] Inr by auto
      show ?thesis
        using fx Inr one by (cases ys) auto
    qed
  qed
qed

lemma set_insert_key: "set (insert_key k hs) = insert k (set hs)"
  by (induction hs) auto

lemma distinct_insert_key: "distinct (insert_key k hs) \<longleftrightarrow> k \<notin> set hs \<and> distinct hs"
  by (induction hs) (auto simp: set_insert_key)

lemma set_sort_keys: "set (sort_keys ks) = set ks"
  by (induction ks) (simp_all add: sort_keys_def set_insert_key)

lemma distinct_sort_keys: "distinct (sort_keys ks) \<longleftrightarrow> distinct ks"
  by (induction ks) (simp_all add: sort_keys_def distinct_insert_key set_sort_keys [unfolded sort_keys_def])

lemma aggregated_names:
  "list_all (\<lambda>a. mean_to_avg (flatten_name (a, ''mean'')) = a @ ''_avg''
               \<and> mean_to_avg (flatten_name (a, ''std'')) = a @ ''_std'')
            (map fst possible_attributes)"
  by code_simp

lemma aggregated_key_names:
  "map (\<lambda>col. mean_to_avg (flatten_name col)) (map (\<lambda>l. (l, [])) aggregate_cols) = aggregate_cols"
  by code_simp

lemma attribute_names_vocabulary:
  "a \<in> set (attribute_names results) \<Longrightarrow> a \<in> set (map fst possible_attributes)"
  by (auto simp: attribute_names_def split: cell.splits if_splits)

lemma flatten_statistics:
  assumes "\<forall>a\<in>set as. a \<in> set (map fst possible_attributes)"
  shows "map (\<lambda>col. Str (mean_to_avg (flatten_name col)))
          (concat (map (\<lambda>a. [(a, ''mean''), (a, ''std'')]) as))
        = concat (map (\<lambda>a. [Str (a @ ''_avg''), Str (a @ ''_std'')]) as)"
  using assms
proof (induction as)
  case Nil
  then show ?case by simp
next
  case (Cons a as)
  from Cons.prems have "a \<in> set (map fst possible_attributes)" by simp
  with aggregated_names
  have "mean_to_avg (flatten_name (a, ''mean'')) = a @ ''_avg''"
       "mean_to_avg (flatten_name (a, ''std'')) = a @ ''_std''"
    unfolding list_all_iff by blast+
  with Cons show ?case by simp
qed

lemma aggregated_columns:
  "map (\<lambda>col. Str (mean_to_avg (flatten_name col)))
       (map (\<lambda>l. (l, [])) aggregate_cols
        @ concat (map (\<lambda>a. [(a, ''mean''), (a, ''std'')]) (attribute_names results)))
   = map Str aggregate_cols
     @ concat (map (\<lambda>a. [Str (a @ ''_avg''), Str (a @ ''_std'')]) (attribute_names results))"
proof -
  have "map (\<lambda>col. Str (mean_to_avg (flatten_name col))) (map (\<lambda>l. (l, [])) aggregate_cols)
      = map Str (map (\<lambda>col. mean_to_avg (flatten_name col)) (map (\<lambda>l. (l, [])) aggregate_cols))"
    by simp
  also have "\<dots> = map Str aggregate_cols"
    by (simp only: aggregated_key_names)
  finally have keys: "map (\<lambda>col. Str (mean_to_avg (flatten_name col))) (map (\<lambda>l. (l, [])) aggregate_cols)
      = map Str aggregate_cols" .
  have "\<forall>a\<in>set (attribute_names results). a \<in> set (map fst possible_attributes)"
    using attribute_names_vocabulary by blast
  then have stats: "map (\<lambda>col. Str (mean_to_avg (flatten_name col)))
          (concat (map (\<lambda>a. [(a, ''mean''), (a, ''std'')]) (attribute_names results)))
        = concat (map (\<lambda>a. [Str (a @ ''_avg''), Str (a @ ''_std'')]) (attribute_names results))"
    by (rule flatten_statistics)
  show ?thesis
    unfolding map_append keys stats ..
qed


text \<open>
  The words of the claim, stated on the tables themselves. The value of a row under a
  label is the cell below the first column with that label. The key of a row is its
  Well Group, Time and channel; the groups are the keys of the rows that have all three.
  The contributions of an attribute to a group are the numbers that the rows with that
  key hold under the attribute, missing values left out, one per row.
\<close>

definition value_of :: "frame \<Rightarrow> cell list \<Rightarrow> string \<Rightarrow> cell" where
  "value_of df row l = (case map_of (zip (columns df) row) (Str l) of Some c \<Rightarrow> c | None \<Rightarrow> NaN)"

definition key_of :: "frame \<Rightarrow> cell list \<Rightarrow> cell list" where
  "key_of df row = [value_of df row ''Well Group'', value_of df row ''Time'', value_of df row ''channel'']"

definition group_keys :: "frame \<Rightarrow> cell list set" where
  "group_keys results = {key \<in> key_of results ` set (rows results). NaN \<notin> set key}"

definition reals_of :: "cell \<Rightarrow> real list" where
  "reals_of c = (case c of IntV i \<Rightarrow> [of_int i] | FloatV r \<Rightarrow> [r] | _ \<Rightarrow> [])"

definition contributions :: "frame \<Rightarrow> cell list \<Rightarrow> string \<Rightarrow> real list" where
  "contributions results key a =
     concat (map (\<lambda>row. if key_of results row = key then reals_of (value_of results row a) else [])
                 (rows results))"

text \<open>
  The mean and the sample standard deviation of real numbers, and what it means for a cell
  to hold them up to the rounding error \<open>eps\<close> of the library: a mean is missing for no
  value, a standard deviation for fewer than two.
\<close>

definition exact_mean :: "real list \<Rightarrow> real" where
  "exact_mean xs = sum_list xs / real (length xs)"

definition exact_std :: "real list \<Rightarrow> real" where
  "exact_std xs = sqrt (sum_list (map (\<lambda>x. (x - exact_mean xs)\<^sup>2) xs) / (real (length xs) - 1))"

definition is_mean :: "real \<Rightarrow> real list \<Rightarrow> cell \<Rightarrow> bool" where
  "is_mean eps xs c =
     (case c of NaN \<Rightarrow> xs = [] | FloatV m \<Rightarrow> xs \<noteq> [] \<and> \<bar>m - exact_mean xs\<bar> \<le> eps | _ \<Rightarrow> False)"

definition is_std :: "real \<Rightarrow> real list \<Rightarrow> cell \<Rightarrow> bool" where
  "is_std eps xs c =
     (case c of NaN \<Rightarrow> length xs < 2 | FloatV s \<Rightarrow> 2 \<le> length xs \<and> \<bar>s - exact_std xs\<bar> \<le> eps
              | _ \<Rightarrow> False)"

definition accurate :: "float_ops \<Rightarrow> real \<Rightarrow> real list \<Rightarrow> bool" where
  "accurate fl eps xs =
     ((xs \<noteq> [] \<longrightarrow> \<bar>float_mean fl xs - exact_mean xs\<bar> \<le> eps)
      \<and> (2 \<le> length xs \<longrightarrow> \<bar>float_std fl xs - exact_std xs\<bar> \<le> eps))"

lemma reals_of_simps [simp]:
  "reals_of NaN = []" "reals_of (Str s) = []" "reals_of (IntV i) = [of_int i]" "reals_of (FloatV r) = [r]"
  by (simp_all add: reals_of_def)

lemma value_of_position:
  "l \<in> set cols \<Longrightarrow>
     (case map_of (zip cols row) l of Some c \<Rightarrow> c | None \<Rightarrow> NaN) = cell_at row (position l cols)"
proof (induction cols arbitrary: row)
  case Nil
  then show ?case by simp
next
  case (Cons c cols)
  show ?case
  proof (cases row)
    case Nil
    then show ?thesis by (simp add: cell_at_def)
  next
    case (Cons r rs)
    show ?thesis
    proof (cases "c = l")
      case True
      then show ?thesis using Cons by (simp add: cell_at_def position_def)
    next
      case False
      with Cons.prems have "l \<in> set cols" by simp
      from Cons.IH [OF this, of rs] False Cons show ?thesis
        by (simp add: cell_at_def position_def)
    qed
  qed
qed

lemma value_of_cell_at:
  "Str l \<in> set (columns df) \<Longrightarrow> value_of df row l = cell_at row (position (Str l) (columns df))"
  unfolding value_of_def by (rule value_of_position)

lemma key_of_group_key:
  "Str ` set aggregate_cols \<subseteq> set (columns results) \<Longrightarrow> key_of results row = group_key results row"
  by (simp add: key_of_def group_key_def aggregate_cols_def value_of_cell_at)

lemma attribute_names_columns:
  "a \<in> set (attribute_names results) \<Longrightarrow> Str a \<in> set (columns results)"
  by (auto simp: attribute_names_def split: cell.splits if_splits)

lemma attribute_names_set:
  "set (attribute_names results)
     = {a. Str a \<in> set (columns results) \<and> a \<in> fst ` set possible_attributes}"
  by (auto simp: attribute_names_def split: cell.splits if_splits)

lemma numbers_reals_of:
  "\<forall>c\<in>set series. \<not> is_str c \<Longrightarrow> numbers series = Inr (concat (map reals_of series))"
proof (induction series)
  case Nil
  then show ?case by (simp add: numbers_def)
next
  case (Cons c series)
  then have "numbers series = Inr (concat (map reals_of series))" by simp
  moreover from Cons.prems have "\<not> is_str c" by simp
  ultimately show ?case
    by (cases c) (simp_all add: numbers_def notna_def is_str_def)
qed

lemma concat_map_if:
  "concat (map (\<lambda>x. if P x then f x else []) xs) = concat (map f (filter P xs))"
  by (induction xs) simp_all

lemma mapM_all: "\<forall>x\<in>set xs. f x = Inr (g x) \<Longrightarrow> mapM f xs = Inr (map g xs)"
  by (induction xs) simp_all

lemma group_values_contributions:
  assumes keys: "Str ` set aggregate_cols \<subseteq> set (columns results)"
      and a: "a \<in> set (attribute_names results)"
      and numeric: "\<forall>row\<in>set (rows results). \<not> is_str (value_of results row a)"
      and key: "list_all notna key"
  shows "numbers (group_values results key a) = Inr (contributions results key a)"
proof -
  have same: "filter (\<lambda>row. group_key results row = key) (grouped_rows results)
            = filter (\<lambda>row. key_of results row = key) (rows results)"
    using key by (auto simp: grouped_rows_def key_of_group_key [OF keys] intro: filter_cong)
  have cell: "cell_at row (position (Str a) (columns results)) = value_of results row a" for row
    using attribute_names_columns [OF a] by (simp add: value_of_cell_at)
  have vals: "group_values results key a
              = map (\<lambda>row. value_of results row a) (filter (\<lambda>row. key_of results row = key) (rows results))"
    by (simp add: group_values_def same cell)
  have "\<forall>c\<in>set (group_values results key a). \<not> is_str c"
    using numeric by (auto simp: vals)
  then have "numbers (group_values results key a) = Inr (concat (map reals_of (group_values results key a)))"
    by (rule numbers_reals_of)
  also have "concat (map reals_of (group_values results key a)) = contributions results key a"
    by (simp add: vals contributions_def concat_map_if comp_def)
  finally show ?thesis .
qed

text \<open>
  The table that the aggregation returns when the three key columns and at least one
  attribute column are present and no attribute column holds a string: the keys of the
  complete rows, sorted, each followed by the library's mean and standard deviation of the
  contributions of every attribute.
\<close>

lemma aggregate_explicit:
  assumes keys: "Str ` set aggregate_cols \<subseteq> set (columns results)"
      and attrs: "attribute_names results \<noteq> []"
      and numeric: "\<forall>row\<in>set (rows results). \<forall>a\<in>set (attribute_names results).
                      \<not> is_str (value_of results row a)"
  shows "aggregate fl results
       = Inr \<lparr>columns = map Str aggregate_cols
                        @ concat (map (\<lambda>a. [Str (a @ ''_avg''), Str (a @ ''_std'')])
                                      (attribute_names results)),
              rows = map (\<lambda>key. key @ concat (map (\<lambda>a. [mean fl (contributions results key a),
                                                          std fl (contributions results key a)])
                                                   (attribute_names results)))
                         (sort_keys (remdups (map (group_key results) (grouped_rows results))))\<rparr>"
proof -
  define ks where "ks = sort_keys (remdups (map (group_key results) (grouped_rows results)))"
  define stat where "stat = (\<lambda>key a. bind (numbers (group_values results key a))
                                           (\<lambda>xs. Inr [mean fl xs, std fl xs]))"
  define cells where "cells = (\<lambda>key a. [mean fl (contributions results key a),
                                         std fl (contributions results key a)])"
  have complete: "list_all notna key" if "key \<in> set ks" for key
    using that by (auto simp: ks_def set_sort_keys grouped_rows_def)
  have one: "stat key a = Inr (cells key a)"
    if "key \<in> set ks" and a: "a \<in> set (attribute_names results)" for key a
  proof -
    from numeric a have "\<forall>row\<in>set (rows results). \<not> is_str (value_of results row a)"
      by blast
    from group_values_contributions [OF keys a this complete [OF that(1)]]
    show ?thesis by (simp add: stat_def cells_def)
  qed
  have line: "bind (mapM (stat key) (attribute_names results)) (\<lambda>stats. Inr (key @ concat stats))
            = Inr (key @ concat (map (cells key) (attribute_names results)))"
    if "key \<in> set ks" for key
  proof -
    have "mapM (stat key) (attribute_names results) = Inr (map (cells key) (attribute_names results))"
      by (rule mapM_all) (simp add: one that)
    then show ?thesis by simp
  qed
  have records: "mapM (\<lambda>key. bind (mapM (stat key) (attribute_names results))
                                  (\<lambda>stats. Inr (key @ concat stats))) ks
               = Inr (map (\<lambda>key. key @ concat (map (cells key) (attribute_names results))) ks)"
    by (rule mapM_all) (simp add: line)
  have "aggregate fl results
      = bind (mapM (\<lambda>key. bind (mapM (stat key) (attribute_names results))
                                (\<lambda>stats. Inr (key @ concat stats))) ks)
             (\<lambda>records. Inr \<lparr>columns =
                     map (\<lambda>col. Str (mean_to_avg (flatten_name col)))
                       (map (\<lambda>l. (l, [])) aggregate_cols
                        @ concat (map (\<lambda>a. [(a, ''mean''), (a, ''std'')]) (attribute_names results))),
                   rows = records\<rparr>)"
    using keys attrs by (simp add: aggregate_def Let_def ks_def stat_def)
  also have "\<dots> = Inr \<lparr>columns =
                     map (\<lambda>col. Str (mean_to_avg (flatten_name col)))
                       (map (\<lambda>l. (l, [])) aggregate_cols
                        @ concat (map (\<lambda>a. [(a, ''mean''), (a, ''std'')]) (attribute_names results))),
                   rows = map (\<lambda>key. key @ concat (map (cells key) (attribute_names results))) ks\<rparr>"
    by (simp only: records bind_Inr)
  finally show ?thesis
    by (simp only: aggregated_columns ks_def cells_def)
qed

lemma statistic_names:
  "a @ ''_avg'' \<noteq> ''Well Group''" "a @ ''_avg'' \<noteq> ''Time''" "a @ ''_avg'' \<noteq> ''channel''"
  "a @ ''_std'' \<noteq> ''Well Group''" "a @ ''_std'' \<noteq> ''Time''" "a @ ''_std'' \<noteq> ''channel''"
  "a @ ''_avg'' \<noteq> b @ ''_std''" "a @ ''_std'' \<noteq> b @ ''_avg''"
proof -
  have l: "last (a @ ''_avg'') = CHR ''g''" "last (a @ ''_std'') = CHR ''d''" for a :: string
    by simp_all
  show "a @ ''_avg'' \<noteq> ''Well Group''" using l(1) [of a] by auto
  show "a @ ''_avg'' \<noteq> ''Time''" using l(1) [of a] by auto
  show "a @ ''_avg'' \<noteq> ''channel''" using l(1) [of a] by auto
  show "a @ ''_std'' \<noteq> ''Well Group''" using l(2) [of a] by auto
  show "a @ ''_std'' \<noteq> ''Time''" using l(2) [of a] by auto
  show "a @ ''_std'' \<noteq> ''channel''" using l(2) [of a] by auto
  show "a @ ''_avg'' \<noteq> b @ ''_std''" using l(1) [of a] l(2) [of b] by auto
  show "a @ ''_std'' \<noteq> b @ ''_avg''" using l(1) [of b] l(2) [of a] by auto
qed

lemma statistics_lookup:
  assumes "a \<in> set attrs"
  shows "map_of (zip (concat (map (\<lambda>a. [Str (a @ ''_avg''), Str (a @ ''_std'')]) attrs))
                     (concat (map (\<lambda>a. [m a, s a]) attrs))) (Str (a @ ''_avg'')) = Some (m a)"
    and "map_of (zip (concat (map (\<lambda>a. [Str (a @ ''_avg''), Str (a @ ''_std'')]) attrs))
                     (concat (map (\<lambda>a. [m a, s a]) attrs))) (Str (a @ ''_std'')) = Some (s a)"
  using assms by (induction attrs) (auto simp: statistic_names)

lemma aggregated_line_values:
  fixes m s :: "string \<Rightarrow> cell"
  assumes df_def: "df = \<lparr>columns = map Str aggregate_cols
                       @ concat (map (\<lambda>a. [Str (a @ ''_avg''), Str (a @ ''_std'')]) attrs),
                   rows = lines\<rparr>"
      and line_def: "line = [k1, k2, k3] @ concat (map (\<lambda>a. [m a, s a]) attrs)"
  shows "key_of df line = [k1, k2, k3]"
    and "a \<in> set attrs \<Longrightarrow> value_of df line (a @ ''_avg'') = m a"
    and "a \<in> set attrs \<Longrightarrow> value_of df line (a @ ''_std'') = s a"
    and "length line = length (columns df)"
proof -
  show "key_of df line = [k1, k2, k3]"
    by (simp add: key_of_def value_of_def df_def line_def aggregate_cols_def)
  show "value_of df line (a @ ''_avg'') = m a" if "a \<in> set attrs"
    using statistics_lookup(1) [OF that, of m s]
    by (simp add: value_of_def df_def line_def aggregate_cols_def statistic_names)
  show "value_of df line (a @ ''_std'') = s a" if "a \<in> set attrs"
    using statistics_lookup(2) [OF that, of m s]
    by (simp add: value_of_def df_def line_def aggregate_cols_def statistic_names)
  show "length line = length (columns df)"
    by (simp add: df_def line_def aggregate_cols_def length_concat comp_def)
qed

lemma is_mean_mean: "accurate fl eps xs \<Longrightarrow> is_mean eps xs (mean fl xs)"
  by (simp add: accurate_def is_mean_def mean_def)

lemma is_std_std: "accurate fl eps xs \<Longrightarrow> is_std eps xs (std fl xs)"
  by (simp add: accurate_def is_std_def std_def not_less)

lemma sqrt_50_bounds: "7.071 < sqrt 50 \<and> sqrt 50 < (7.072 :: real)"
proof
  have "(7.071 :: real)\<^sup>2 < 50" by (simp add: power2_eq_square)
  then show "7.071 < sqrt 50"
    by (rule real_less_rsqrt)
  show "sqrt 50 < (7.072 :: real)"
    by (rule real_less_lsqrt) (simp_all add: power2_eq_square)
qed

lemma exact_std_two_values: "exact_std [10, 20] = sqrt 50"
  by (simp add: exact_std_def exact_mean_def power2_eq_square)

lemma group_keys_grouped_rows:
  assumes "Str ` set aggregate_cols \<subseteq> set (columns results)"
  shows "group_key results ` set (grouped_rows results) = group_keys results"
  by (auto simp: group_keys_def grouped_rows_def key_of_group_key [OF assms] list_all_iff notna_def)

text \<open>
  Claim C3 (amended). Let the row-level table have the columns Well Group, Time and channel
  and at least one attribute column, none of them holding a string, and let the library
  compute means and sample standard deviations of the groups' values with an error of at
  most \<open>eps\<close>. Then the aggregation returns a table. Its columns are the three key columns
  followed by \<open>a_avg\<close> and \<open>a_std\<close> for every attribute column \<open>a\<close> present (the columns of the
  row-level table whose label is in the attribute vocabulary). It has exactly one line per
  group key, the group keys being the (Well Group, Time, channel) values of the rows that
  have all three. In the line of a key, column \<open>a_avg\<close> holds the mean of the values that
  the rows with that key contribute to \<open>a\<close> (missing when there is none), and \<open>a_std\<close> holds
  their sample standard deviation (missing when there are fewer than two), both up to
  \<open>eps\<close>. The mean of 10 and 20 is 15 and their sample standard deviation lies between 7.071
  and 7.072. A group to which exactly one row contributes a value \<open>x\<close> has the mean \<open>x\<close> (up
  to \<open>eps\<close>) and a missing standard deviation: what counts is the number of contributing
  rows, not the number of wells.
\<close>

theorem aggregate_mean_std:
  assumes keys: "{Str ''Well Group'', Str ''Time'', Str ''channel''} \<subseteq> set (columns results)"
      and attrs: "attribute_names results \<noteq> []"
      and numeric: "\<forall>row\<in>set (rows results). \<forall>a\<in>set (attribute_names results).
                      \<not> is_str (value_of results row a)"
      and library: "\<forall>key\<in>group_keys results. \<forall>a\<in>set (attribute_names results).
                      accurate fl eps (contributions results key a)"
  shows "\<exists>results_agg.
           aggregate fl results = Inr results_agg
         \<and> set (attribute_names results)
             = {a. Str a \<in> set (columns results) \<and> a \<in> fst ` set possible_attributes}
         \<and> columns results_agg
             = [Str ''Well Group'', Str ''Time'', Str ''channel'']
               @ concat (map (\<lambda>a. [Str (a @ ''_avg''), Str (a @ ''_std'')]) (attribute_names results))
         \<and> distinct (map (key_of results_agg) (rows results_agg))
         \<and> key_of results_agg ` set (rows results_agg) = group_keys results
         \<and> (\<forall>line\<in>set (rows results_agg).
               length line = length (columns results_agg)
             \<and> (\<forall>a\<in>set (attribute_names results).
                   is_mean eps (contributions results (key_of results_agg line) a)
                               (value_of results_agg line (a @ ''_avg''))
                 \<and> is_std eps (contributions results (key_of results_agg line) a)
                              (value_of results_agg line (a @ ''_std''))))
         \<and> exact_mean [10, 20] = 15 \<and> 7.071 < exact_std [10, 20] \<and> exact_std [10, 20] < 7.072
         \<and> (\<forall>x c d. is_mean eps [x] c \<and> is_std eps [x] d
               \<longrightarrow> (\<exists>m. c = FloatV m \<and> \<bar>m - x\<bar> \<le> eps) \<and> d = NaN)"
proof -
  define ks where "ks = sort_keys (remdups (map (group_key results) (grouped_rows results)))"
  define avg where "avg = (\<lambda>key a. mean fl (contributions results key a))"
  define dev where "dev = (\<lambda>key a. std fl (contributions results key a))"
  define entry where "entry = (\<lambda>key. key @ concat (map (\<lambda>a. [avg key a, dev key a]) (attribute_names results)))"
  define ra where "ra = \<lparr>columns = map Str aggregate_cols
                              @ concat (map (\<lambda>a. [Str (a @ ''_avg''), Str (a @ ''_std'')])
                                            (attribute_names results)),
                         rows = map entry ks\<rparr>"
  from keys have keys': "Str ` set aggregate_cols \<subseteq> set (columns results)"
    by (simp add: aggregate_cols_def)
  have agg: "aggregate fl results = Inr ra"
    unfolding ra_def entry_def avg_def dev_def ks_def
    using keys' attrs numeric by (rule aggregate_explicit)
  have ks_set: "set ks = group_keys results"
    by (simp add: ks_def set_sort_keys group_keys_grouped_rows [OF keys'])
  have ks_distinct: "distinct ks"
    by (simp add: ks_def distinct_sort_keys)
  have three: "\<exists>k1 k2 k3. key = [k1, k2, k3]" if "key \<in> set ks" for key
    using that by (auto simp: ks_def set_sort_keys group_key_def aggregate_cols_def)
  have entry_key: "key_of ra (entry key) = key"
    and entry_avg: "a \<in> set (attribute_names results) \<Longrightarrow> value_of ra (entry key) (a @ ''_avg'') = avg key a"
    and entry_dev: "a \<in> set (attribute_names results) \<Longrightarrow> value_of ra (entry key) (a @ ''_std'') = dev key a"
    and entry_length: "length (entry key) = length (columns ra)"
    if "key \<in> set ks" for key a
  proof -
    from three [OF that] obtain k1 k2 k3 where key: "key = [k1, k2, k3]" by blast
    have e: "entry key = [k1, k2, k3] @ concat (map (\<lambda>a. [avg key a, dev key a]) (attribute_names results))"
      by (simp add: entry_def key)
    from aggregated_line_values(1) [OF ra_def e] key show "key_of ra (entry key) = key" by simp
    show "value_of ra (entry key) (a @ ''_avg'') = avg key a" if "a \<in> set (attribute_names results)"
      using aggregated_line_values(2) [OF ra_def e that] .
    show "value_of ra (entry key) (a @ ''_std'') = dev key a" if "a \<in> set (attribute_names results)"
      using aggregated_line_values(3) [OF ra_def e that] .
    show "length (entry key) = length (columns ra)"
      using aggregated_line_values(4) [OF ra_def e] .
  qed
  have "rows ra = map entry ks"
    by (simp add: ra_def)
  then have "map (key_of ra) (rows ra) = map (\<lambda>key. key_of ra (entry key)) ks"
    by simp
  also have "\<dots> = ks"
    by (rule map_idI) (rule entry_key)
  finally have key_map: "map (key_of ra) (rows ra) = ks" .
  have cols: "columns ra
             = [Str ''Well Group'', Str ''Time'', Str ''channel'']
               @ concat (map (\<lambda>a. [Str (a @ ''_avg''), Str (a @ ''_std'')]) (attribute_names results))"
    by (simp add: ra_def aggregate_cols_def)
  have dist: "distinct (map (key_of ra) (rows ra))"
    by (simp only: key_map ks_distinct)
  have key_set: "key_of ra ` set (rows ra) = group_keys results"
    using key_map ks_set by (metis list.set_map)
  have cell: "length line = length (columns ra)
             \<and> (\<forall>a\<in>set (attribute_names results).
                   is_mean eps (contributions results (key_of ra line) a) (value_of ra line (a @ ''_avg''))
                 \<and> is_std eps (contributions results (key_of ra line) a) (value_of ra line (a @ ''_std'')))"
    if "line \<in> set (rows ra)" for line
  proof -
    from that obtain key where k: "key \<in> set ks" and l: "line = entry key"
      by (auto simp: ra_def)
    from k ks_set have g: "key \<in> group_keys results" by simp
    have "is_mean eps (contributions results key a) (avg key a)
        \<and> is_std eps (contributions results key a) (dev key a)"
      if "a \<in> set (attribute_names results)" for a
      using library g that by (simp add: avg_def dev_def is_mean_mean is_std_std)
    then show ?thesis
      by (simp add: l entry_key [OF k] entry_avg [OF k] entry_dev [OF k] entry_length [OF k])
  qed
  have ex1: "exact_mean [10, 20] = 15"
    by (simp add: exact_mean_def)
  have ex2: "7.071 < exact_std [10, 20] \<and> exact_std [10, 20] < 7.072"
    using sqrt_50_bounds by (simp only: exact_std_two_values)
  have single: "\<forall>x c d. is_mean eps [x] c \<and> is_std eps [x] d
               \<longrightarrow> (\<exists>m. c = FloatV m \<and> \<bar>m - x\<bar> \<le> eps) \<and> d = NaN"
    by (auto simp: is_mean_def is_std_def exact_mean_def split: cell.splits)
  from agg attribute_names_set [of results] cols dist key_set cell ex1 ex2 single
  show ?thesis by blast
qed

text \<open>
  A run of the pipeline: wells A1 to A4 at one time point with intensities 10, 20, 7 and
  5; the sheet maps A1 and A2 to the group G1 and A3 to G2, and leaves A4 out.
\<close>

definition four_wells_frame :: frame where
  "four_wells_frame =
     \<lparr>columns = [Str ''Scan'', Str ''Time'', Str ''Unnamed: 2'', Str ''Unnamed: 3'',
                 Str ''Unnamed: 4'', Str ''Unnamed: 5''],
      rows = [[IntV 1, NaN, Str ''Well A1'', Str ''Well A2'', Str ''Well A3'', Str ''Well A4''],
              [IntV 1, Str ''h'', Str ''AU'', Str ''AU'', Str ''AU'', Str ''AU''],
              [IntV 1, Str ''1'', Str ''10'', Str ''20'', Str ''7'', Str ''5'']]\<rparr>"

definition groups_sheet :: frame where
  "groups_sheet =
     \<lparr>columns = [Str ''Well'', Str ''Group''],
      rows = [[Str ''A1'', Str ''G1''], [Str ''A2'', Str ''G1''], [Str ''A3'', Str ''G2'']]\<rparr>"

definition groups_dir :: directory where
  "groups_dir =
     [(''scan42_summary_wells_BF_total_intensity.csv'', File (Csv four_wells_frame)),
      (''layout.xlsx'', File (Xlsx groups_sheet))]"

definition groups_rows :: frame where
  "groups_rows =
     \<lparr>columns = [Str ''Time'', Str ''Well'', Str ''total_intensity'', Str ''channel'',
                 Str ''Group'', Str ''Well Group'', Str ''Scan ID''],
      rows = [[IntV 1, Str ''A1'', IntV 10, Str ''BF'', Str ''G1'', Str ''G1'', Str ''scan42''],
              [IntV 1, Str ''A2'', IntV 20, Str ''BF'', Str ''G1'', Str ''G1'', Str ''scan42''],
              [IntV 1, Str ''A3'', IntV 7, Str ''BF'', Str ''G2'', Str ''G2'', Str ''scan42''],
              [IntV 1, Str ''A4'', IntV 5, Str ''BF'', NaN, NaN, Str ''scan42'']]\<rparr>"

definition groups_agg :: frame where
  "groups_agg =
     \<lparr>columns = [Str ''Well Group'', Str ''Time'', Str ''channel'',
                 Str ''total_intensity_avg'', Str ''total_intensity_std''],
      rows = [[Str ''G1'', IntV 1, Str ''BF'', FloatV 15, FloatV (float_sqrt 50)],
              [Str ''G2'', IntV 1, Str ''BF'', FloatV 7, NaN]]\<rparr>"

lemma groups_dir_process:
  "process sample_floats (Some (Dir groups_dir))
     = Inr (assign_constant (Str ''Scan ID'') (Str ''scan42'') groups_agg, groups_rows)"
  by code_simp simp_all

lemma groups_rows_aggregate: "aggregate sample_floats groups_rows = Inr groups_agg"
  by code_simp simp_all

lemma sample_floats_accurate: "accurate sample_floats 0 xs"
  by (simp add: accurate_def sample_floats_def float_sqrt_def exact_std_def exact_mean_def of_nat_diff)

theorem aggregate_mean_std_witness:
  "process sample_floats (Some (Dir groups_dir))
     = Inr (assign_constant (Str ''Scan ID'') (Str ''scan42'') groups_agg, groups_rows)
   \<and> {Str ''Well Group'', Str ''Time'', Str ''channel''} \<subseteq> set (columns groups_rows)
   \<and> attribute_names groups_rows = [''total_intensity'']
   \<and> list_all (\<lambda>row. \<not> is_str (value_of groups_rows row ''total_intensity'')) (rows groups_rows)
   \<and> aggregate sample_floats groups_rows = Inr groups_agg
   \<and> group_keys groups_rows = {[Str ''G1'', IntV 1, Str ''BF''], [Str ''G2'', IntV 1, Str ''BF'']}
   \<and> contributions groups_rows [Str ''G1'', IntV 1, Str ''BF''] ''total_intensity'' = [10, 20]
   \<and> contributions groups_rows [Str ''G2'', IntV 1, Str ''BF''] ''total_intensity'' = [7]
   \<and> is_mean 0 [10, 20] (FloatV 15) \<and> is_std 0 [10, 20] (FloatV (float_sqrt 50))
   \<and> is_mean 0 [7] (FloatV 7) \<and> is_std 0 [7] NaN
   \<and> 7.071 < float_sqrt 50 \<and> float_sqrt 50 < 7.072"
proof -
  let ?l1 = "[Str ''G1'', IntV 1, Str ''BF'', FloatV 15, FloatV (float_sqrt 50)]"
  let ?l2 = "[Str ''G2'', IntV 1, Str ''BF'', FloatV 7, NaN]"
  have keys: "{Str ''Well Group'', Str ''Time'', Str ''channel''} \<subseteq> set (columns groups_rows)"
    by (simp add: groups_rows_def)
  have attrs: "attribute_names groups_rows = [''total_intensity'']"
    by code_simp
  have numeric: "list_all (\<lambda>row. \<not> is_str (value_of groups_rows row ''total_intensity'')) (rows groups_rows)"
    by code_simp
  have lines: "rows groups_agg = [?l1, ?l2]"
    by (simp add: groups_agg_def)
  have k1: "key_of groups_agg ?l1 = [Str ''G1'', IntV 1, Str ''BF'']"
    by code_simp
  have k2: "key_of groups_agg ?l2 = [Str ''G2'', IntV 1, Str ''BF'']"
    by code_simp
  have v1: "value_of groups_agg ?l1 (''total_intensity'' @ ''_avg'') = FloatV 15"
    by code_simp
  have d1: "value_of groups_agg ?l1 (''total_intensity'' @ ''_std'') = FloatV (float_sqrt 50)"
    by code_simp
  have v2: "value_of groups_agg ?l2 (''total_intensity'' @ ''_avg'') = FloatV 7"
    by code_simp
  have d2: "value_of groups_agg ?l2 (''total_intensity'' @ ''_std'') = NaN"
    by code_simp
  have c1: "contributions groups_rows [Str ''G1'', IntV 1, Str ''BF''] ''total_intensity'' = [10, 20]"
    by code_simp
  have c2: "contributions groups_rows [Str ''G2'', IntV 1, Str ''BF''] ''total_intensity'' = [7]"
    by code_simp
  have h2: "attribute_names groups_rows \<noteq> []"
    by (simp add: attrs)
  have h3: "\<forall>row\<in>set (rows groups_rows). \<forall>a\<in>set (attribute_names groups_rows).
              \<not> is_str (value_of groups_rows row a)"
    using numeric by (simp add: attrs list_all_iff)
  have h4: "\<forall>key\<in>group_keys groups_rows. \<forall>a\<in>set (attribute_names groups_rows).
              accurate sample_floats 0 (contributions groups_rows key a)"
    by (simp add: sample_floats_accurate)
  from aggregate_mean_std [OF keys h2 h3 h4] obtain ra where
    agg: "aggregate sample_floats groups_rows = Inr ra"
    and ks: "key_of ra ` set (rows ra) = group_keys groups_rows"
    and cells: "\<forall>line\<in>set (rows ra).
               length line = length (columns ra)
             \<and> (\<forall>a\<in>set (attribute_names groups_rows).
                   is_mean 0 (contributions groups_rows (key_of ra line) a)
                             (value_of ra line (a @ ''_avg''))
                 \<and> is_std 0 (contributions groups_rows (key_of ra line) a)
                            (value_of ra line (a @ ''_std'')))"
    by (elim exE conjE)
  from agg have ra: "ra = groups_agg"
    by (simp add: groups_rows_aggregate)
  from ks have g: "group_keys groups_rows = {[Str ''G1'', IntV 1, Str ''BF''], [Str ''G2'', IntV 1, Str ''BF'']}"
    by (simp add: ra lines k1 k2)
  have a: "''total_intensity'' \<in> set (attribute_names groups_rows)"
    by (simp add: attrs)
  have "?l1 \<in> set (rows ra)"
    by (simp add: ra lines)
  with cells a have "is_mean 0 (contributions groups_rows (key_of ra ?l1) ''total_intensity'')
                             (value_of ra ?l1 (''total_intensity'' @ ''_avg''))
                 \<and> is_std 0 (contributions groups_rows (key_of ra ?l1) ''total_intensity'')
                            (value_of ra ?l1 (''total_intensity'' @ ''_std''))"
    by blast
  then have m1: "is_mean 0 [10, 20] (FloatV 15) \<and> is_std 0 [10, 20] (FloatV (float_sqrt 50))"
    by (simp only: ra k1 c1 v1 d1)
  have "?l2 \<in> set (rows ra)"
    by (simp add: ra lines)
  with cells a have "is_mean 0 (contributions groups_rows (key_of ra ?l2) ''total_intensity'')
                             (value_of ra ?l2 (''total_intensity'' @ ''_avg''))
                 \<and> is_std 0 (contributions groups_rows (key_of ra ?l2) ''total_intensity'')
                            (value_of ra ?l2 (''total_intensity'' @ ''_std''))"
    by blast
  then have m2: "is_mean 0 [7] (FloatV 7) \<and> is_std 0 [7] NaN"
    by (simp only: ra k2 c2 v2 d2)
  have b: "7.071 < float_sqrt 50 \<and> float_sqrt 50 < 7.072"
    using sqrt_50_bounds by (simp only: float_sqrt_def)
  from groups_dir_process keys attrs numeric groups_rows_aggregate g c1 c2 m1 m2 b show ?thesis
    by (intro conjI) (elim conjE, assumption)+
qed

text \<open>
  One well is not one value. The sheet below lists the well A1 twice under the group G1;
  the left join then holds the measurement of A1 twice, and the group of this single well
  gets the standard deviation 0 of the values 10 and 10 instead of a missing one.
\<close>

definition one_well_frame :: frame where
  "one_well_frame =
     \<lparr>columns = [Str ''Scan'', Str ''Time'', Str ''Unnamed: 2''],
      rows = [[IntV 1, NaN, Str ''Well A1''],
              [IntV 1, Str ''h'', Str ''AU''],
              [IntV 1, Str ''1'', Str ''10'']]\<rparr>"

definition repeated_well_dir :: directory where
  "repeated_well_dir =
     [(''scan42_summary_wells_BF_total_intensity.csv'', File (Csv one_well_frame)),
      (''layout.xlsx'', File (Xlsx \<lparr>columns = [Str ''Well'', Str ''Group''],
                                    rows = [[Str ''A1'', Str ''G1''], [Str ''A1'', Str ''G1'']]\<rparr>))]"

lemma repeated_well_dir_process:
  "process sample_floats (Some (Dir repeated_well_dir))
     = Inr (\<lparr>columns = [Str ''Well Group'', Str ''Time'', Str ''channel'',
                        Str ''total_intensity_avg'', Str ''total_intensity_std'', Str ''Scan ID''],
             rows = [[Str ''G1'', IntV 1, Str ''BF'', FloatV 10, FloatV (float_sqrt 0), Str ''scan42'']]\<rparr>,
            \<lparr>columns = [Str ''Time'', Str ''Well'', Str ''total_intensity'', Str ''channel'',
                        Str ''Group'', Str ''Well Group'', Str ''Scan ID''],
             rows = [[IntV 1, Str ''A1'', IntV 10, Str ''BF'', Str ''G1'', Str ''G1'', Str ''scan42''],
                     [IntV 1, Str ''A1'', IntV 10, Str ''BF'', Str ''G1'', Str ''G1'', Str ''scan42'']]\<rparr>)"
  by code_simp simp_all

theorem repeated_well_std:
  "process sample_floats (Some (Dir repeated_well_dir))
     = Inr (\<lparr>columns = [Str ''Well Group'', Str ''Time'', Str ''channel'',
                        Str ''total_intensity_avg'', Str ''total_intensity_std'', Str ''Scan ID''],
             rows = [[Str ''G1'', IntV 1, Str ''BF'', FloatV 10, FloatV 0, Str ''scan42'']]\<rparr>,
            \<lparr>columns = [Str ''Time'', Str ''Well'', Str ''total_intensity'', Str ''channel'',
                        Str ''Group'', Str ''Well Group'', Str ''Scan ID''],
             rows = [[IntV 1, Str ''A1'', IntV 10, Str ''BF'', Str ''G1'', Str ''G1'', Str ''scan42''],
                     [IntV 1, Str ''A1'', IntV 10, Str ''BF'', Str ''G1'', Str ''G1'', Str ''scan42'']]\<rparr>)
   \<and> FloatV 0 \<noteq> NaN"
  by (simp add: repeated_well_dir_process float_sqrt_def)

end
